theory Spec2Isabelle
  imports Complex_Main "HOL-Library.AList" "HOL-Library.Log_Nat"
begin

section \<open>Data model\<close>

text \<open>
  The engine is JavaScript. The embedding fixes the following representation.
  \<^item> A JavaScript number that holds an amount or a ratio is a binary64 value, kept as the
    rational number it denotes (\<open>rat\<close>). Every arithmetic operation of the source is the
    exact operation followed by rounding to the nearest binary64 value (\<open>jadd\<close>, \<open>jsub\<close>,
    \<open>jmul\<close>, \<open>jdiv\<close> below); comparisons are exact. A quotient whose divisor may be zero is
    written with its guard, because JavaScript yields \<open>NaN\<close> or \<open>Infinity\<close> there and every
    comparison with those is false, whereas HOL yields \<open>0\<close>. Overflow to \<open>Infinity\<close> (beyond
    about \<open>1.8e308\<close>) is not modelled.
  \<^item> Counts (\<open>length\<close>, \<open>Set.size\<close>) are \<open>nat\<close>; scores and day counts are \<open>int\<close>.
  \<^item> A transaction timestamp is a string handed to \<open>new Date(...)\<close>. It is modelled by what
    the parse gives: \<open>Some ms\<close> (milliseconds since the epoch) or \<open>None\<close> for an
    \<open>Invalid Date\<close>, whose time value is \<open>NaN\<close>.
  \<^item> The clock is a parameter of every operation that reads it: a reading of \<open>Date.now()\<close>
    together with the offset of local civil time from UTC at that reading. A pure
    computation (an evaluation, the construction of an alert, the writing of one audit
    record) sees one reading. An operation that runs several of them in sequence takes
    the successive readings as a function of the step number (\<open>nat \<Rightarrow> clock\<close>), so that the
    clock may advance between the steps of one call.
  \<^item> Account identifiers and transaction identifiers are strings.
\<close>

record clock =
  now :: int
  tzOffset :: int

record transaction =
  tx_id :: string
  sender :: string
  receiver :: string
  amount :: rat
  timestamp :: "int option"

datatype severity = Low | Medium | High | Critical

datatype risk_level = Normal | Suspicious | HighRisk | ProbableML

subsection \<open>Numbers\<close>

text \<open>Rounding to binary64, to the nearest value, ties to the even significand: \<open>2\<close> to the
  power \<open>e\<close>, the exponent of the leading bit of a positive rational, rounding to an integer
  with ties to even, and the rounding itself with 53 bits of significand and the smallest
  exponent \<open>-1074\<close> of the subnormal range.\<close>

definition pow2 :: "int \<Rightarrow> rat" where
  "pow2 e = (if e \<ge> 0 then 2 ^ nat e else 1 / 2 ^ nat (- e))"

definition ilog2 :: "rat \<Rightarrow> int" where
  "ilog2 a =
     (if a \<ge> 1 then bitlen \<lfloor>a\<rfloor> - 1
      else (let r = 1 / a; k = bitlen \<lfloor>r\<rfloor> - 1
            in if pow2 k = r then - k else - k - 1))"

definition roundHalfEven :: "rat \<Rightarrow> int" where
  "roundHalfEven x =
     (let m = \<lfloor>x\<rfloor>; d = x - of_int m
      in if d < 1 / 2 then m else if d > 1 / 2 then m + 1 else if even m then m else m + 1)"

definition fl :: "rat \<Rightarrow> rat" where
  "fl x =
     (if x = 0 then 0
      else (let a = \<bar>x\<bar>; e = max (ilog2 a - 52) (- 1074); m = roundHalfEven (a / pow2 e)
            in sgn x * of_int m * pow2 e))"

text \<open>The arithmetic operators of JavaScript on numbers. The operands are rounded too, so
  that a decimal constant of the source (\<open>0.05\<close>, \<open>1.1\<close>) stands for the binary64 value the
  parser reads; on a binary64 value that rounding changes nothing.\<close>

definition jadd :: "rat \<Rightarrow> rat \<Rightarrow> rat" where
  "jadd a b = fl (fl a + fl b)"

definition jsub :: "rat \<Rightarrow> rat \<Rightarrow> rat" where
  "jsub a b = fl (fl a - fl b)"

definition jmul :: "rat \<Rightarrow> rat \<Rightarrow> rat" where
  "jmul a b = fl (fl a * fl b)"

definition jdiv :: "rat \<Rightarrow> rat \<Rightarrow> rat" where
  "jdiv a b = fl (fl a / fl b)"

subsection \<open>Dates\<close>

text \<open>Relational operators on two \<open>Date\<close> objects compare their time values; with \<open>NaN\<close> on
  either side the result is false.\<close>

definition date_lt :: "int option \<Rightarrow> int option \<Rightarrow> bool" where
  "date_lt a b = (case a of None \<Rightarrow> False | Some x \<Rightarrow> (case b of None \<Rightarrow> False | Some y \<Rightarrow> x < y))"

definition date_gt :: "int option \<Rightarrow> int option \<Rightarrow> bool" where
  "date_gt a b = date_lt b a"

definition date_ge :: "int option \<Rightarrow> int option \<Rightarrow> bool" where
  "date_ge a b = (case a of None \<Rightarrow> False | Some x \<Rightarrow> (case b of None \<Rightarrow> False | Some y \<Rightarrow> y \<le> x))"

definition msPerHour :: int where
  "msPerHour = 60 * 60 * 1000"

definition msPerDay :: int where
  "msPerDay = 1000 * 60 * 60 * 24"

text \<open>\<open>getHours()\<close>: the hour of the local civil time, \<open>NaN\<close> for an invalid date.\<close>

definition getHours :: "clock \<Rightarrow> int option \<Rightarrow> int option" where
  "getHours clk d = (case d of None \<Rightarrow> None | Some t \<Rightarrow> Some (((t + tzOffset clk) mod msPerDay) div msPerHour))"

text \<open>\<open>toDateString()\<close>: the local civil date, here its day number; \<open>None\<close> stands for the
  string \<open>Invalid Date\<close>, which is one more value a set of date strings can hold.\<close>

definition toDateString :: "clock \<Rightarrow> int option \<Rightarrow> int option" where
  "toDateString clk d = (case d of None \<Rightarrow> None | Some t \<Rightarrow> Some ((t + tzOffset clk) div msPerDay))"

text \<open>\<open>new Date(y, m, d)\<close> of today's local date: local midnight.\<close>

definition startOfDay :: "clock \<Rightarrow> int" where
  "startOfDay clk = ((now clk + tzOffset clk) div msPerDay) * msPerDay - tzOffset clk"

text \<open>The size of \<open>new Set(xs)\<close>.\<close>

definition set_size :: "'a list \<Rightarrow> nat" where
  "set_size xs = length (remdups xs)"

text \<open>\<open>Math.abs(x - ref) / ref < tol\<close> in JavaScript: with \<open>ref = 0\<close> the quotient is \<open>NaN\<close> or
  \<open>Infinity\<close> and the test is false.\<close>

definition within_rel :: "rat \<Rightarrow> rat \<Rightarrow> rat \<Rightarrow> bool" where
  "within_rel x ref tol = (if fl ref = 0 then False else jdiv \<bar>jsub x ref\<bar> ref < fl tol)"

definition touches :: "string \<Rightarrow> transaction \<Rightarrow> bool" where
  "touches accountId tx = (sender tx = accountId \<or> receiver tx = accountId)"

section \<open>BaselineEngine\<close>

record baseline =
  b_accountId :: string
  avgDailyInflow :: rat
  avgDailyOutflow :: rat
  avgTxFrequency :: rat
  avgUniqueSenders :: rat
  avgUniqueReceivers :: rat
  typicalAmountRange :: "rat \<times> rat"
  accountAge :: int
  totalTransactions :: nat
  b_lastUpdated :: int

definition getDefaultBaseline :: "clock \<Rightarrow> string \<Rightarrow> baseline" where
  "getDefaultBaseline clk accountId =
     \<lparr>b_accountId = accountId, avgDailyInflow = 0, avgDailyOutflow = 0, avgTxFrequency = 0,
      avgUniqueSenders = 0, avgUniqueReceivers = 0, typicalAmountRange = (0, 0),
      accountAge = 0, totalTransactions = 0, b_lastUpdated = now clk\<rparr>"

text \<open>The callback of the \<open>reduce\<close> that looks for the first transaction.\<close>

definition earlier :: "transaction \<Rightarrow> transaction \<Rightarrow> transaction" where
  "earlier earliest tx = (if date_lt (timestamp tx) (timestamp earliest) then tx else earliest)"

text \<open>\<open>Math.floor((Date.now() - new Date(firstTx.timestamp)) / 86400000) || 1\<close>: the \<open>||\<close>
  replaces the falsy values \<open>0\<close> and \<open>NaN\<close> only.\<close>

definition ageOf :: "clock \<Rightarrow> int option \<Rightarrow> int" where
  "ageOf clk first =
     (case first of None \<Rightarrow> 1
      | Some t \<Rightarrow> (let d = (now clk - t) div msPerDay in if d = 0 then 1 else d))"

definition sumAmounts :: "transaction list \<Rightarrow> rat" where
  "sumAmounts txs = foldl (\<lambda>sum tx. jadd sum (amount tx)) 0 txs"

definition calculateBaseline :: "clock \<Rightarrow> string \<Rightarrow> transaction list \<Rightarrow> baseline" where
  "calculateBaseline clk accountId allTransactions =
     (let accountTxs = filter (touches accountId) allTransactions in
      case accountTxs of
        [] \<Rightarrow> getDefaultBaseline clk accountId
      | t0 # rest \<Rightarrow>
         (let firstTx = foldl earlier t0 rest;
              age = ageOf clk (timestamp firstTx);
              inflows = filter (\<lambda>tx. receiver tx = accountId) accountTxs;
              outflows = filter (\<lambda>tx. sender tx = accountId) accountTxs;
              totalInflow = sumAmounts inflows;
              totalOutflow = sumAmounts outflows;
              uniqueSenders = set_size (map sender inflows);
              uniqueReceivers = set_size (map receiver outflows);
              amounts = sort (map amount accountTxs);
              n = length amounts;
              p10 = amounts ! (n div 10);
              p90 = amounts ! ((9 * n) div 10)
          in \<lparr>b_accountId = accountId,
              avgDailyInflow = jdiv totalInflow (of_int age),
              avgDailyOutflow = jdiv totalOutflow (of_int age),
              avgTxFrequency = jdiv (of_nat (length accountTxs)) (of_int age),
              avgUniqueSenders = jdiv (of_nat uniqueSenders) (of_int age),
              avgUniqueReceivers = jdiv (of_nat uniqueReceivers) (of_int age),
              typicalAmountRange = (p10, p90),
              accountAge = age,
              totalTransactions = length accountTxs,
              b_lastUpdated = now clk\<rparr>))"

datatype deviation_type = amount_deviation | first_transaction | range_deviation

record deviation =
  dev_type :: deviation_type
  dev_severity :: severity
  dev_ratio :: "rat option"

record deviation_result =
  hasDeviation :: bool
  deviations :: "deviation list"
  dr_baseline :: baseline

text \<open>\<open>if (transaction.sender)\<close> tests that the sender string is not empty.\<close>

definition checkDeviation :: "transaction \<Rightarrow> baseline \<Rightarrow> deviation_result" where
  "checkDeviation tx b =
     (let d1 = (if sender tx \<noteq> [] then
                  (if avgDailyOutflow b > 0 then
                     (let amountRatio = jdiv (amount tx) (avgDailyOutflow b) in
                      if amountRatio > 3 then
                        [\<lparr>dev_type = amount_deviation,
                          dev_severity = (if amountRatio > 5 then High else Medium),
                          dev_ratio = Some amountRatio\<rparr>]
                      else [])
                   else if amount tx > 0 then
                     [\<lparr>dev_type = first_transaction, dev_severity = Medium, dev_ratio = None\<rparr>]
                   else [])
                else []);
          maxTypical = snd (typicalAmountRange b);
          d2 = (if maxTypical > 0 \<and> amount tx > jmul maxTypical (3 / 2) then
                  [\<lparr>dev_type = range_deviation, dev_severity = Medium, dev_ratio = None\<rparr>]
                else []);
          ds = d1 @ d2
      in \<lparr>hasDeviation = (length ds > 0), deviations = ds, dr_baseline = b\<rparr>)"

definition getRecentActivity :: "clock \<Rightarrow> string \<Rightarrow> transaction list \<Rightarrow> int \<Rightarrow> transaction list" where
  "getRecentActivity clk accountId txs hoursBack =
     (let cutoff = now clk - hoursBack * msPerHour in
      filter (\<lambda>tx. touches accountId tx \<and> date_gt (timestamp tx) (Some cutoff)) txs)"

section \<open>PatternDetector\<close>

datatype pattern_type = smurfing | layering | structuring | income_mismatch

text \<open>The \<open>evidence\<close> object of each detection, field by field in the order of the source:
  smurfing (uniqueSenders, totalTransactions, clustered), layering (cycleCount, avgTimeDiff),
  structuring (transactionCount, daysSpread, threshold, avgAmount), income mismatch
  (recentDailyAvg, baselineAvg, ratio, accountAge). The \<open>description\<close> strings render the same
  numbers and are left out, as is the list \<open>cycles\<close> of a layering detection.\<close>

datatype pattern_evidence =
    SmurfingEvidence nat nat bool
  | LayeringEvidence nat rat
  | StructuringEvidence nat nat rat rat
  | MismatchEvidence rat rat rat int

record pattern =
  p_type :: pattern_type
  p_severity :: severity
  p_evidence :: pattern_evidence

text \<open>Every detector returns \<open>{detected: false}\<close> or a detection: an option.\<close>

definition detectSmurfing :: "string \<Rightarrow> transaction list \<Rightarrow> pattern option" where
  "detectSmurfing accountId recentTxs =
     (let inflows = filter (\<lambda>tx. receiver tx = accountId) recentTxs;
          uniqueSenders = set_size (map sender inflows)
      in if uniqueSenders \<ge> 6 then
           (let amounts = map amount inflows;
                avgAmount = jdiv (foldl (\<lambda>a b. jadd a b) 0 amounts) (of_nat (length amounts));
                clustered = (of_nat (length (filter (\<lambda>amt. within_rel amt avgAmount (1 / 5)) amounts))
                               \<ge> jmul (of_nat (length amounts)) (6 / 10))
            in Some \<lparr>p_type = smurfing, p_severity = High,
                     p_evidence = SmurfingEvidence uniqueSenders (length inflows) clustered\<rparr>)
         else None)"

text \<open>The time difference in minutes between an inflow and its first matching outflow, if
  there is one: \<open>transactions.find(...)\<close> in store order.\<close>

definition rapidCycle :: "string \<Rightarrow> transaction list \<Rightarrow> transaction \<Rightarrow> rat option" where
  "rapidCycle accountId txs inflow =
     (let inflowTime = timestamp inflow;
          twoHoursLater = map_option (\<lambda>t. t + 2 * msPerHour) inflowTime
      in case List.find (\<lambda>tx. sender tx = accountId \<and>
                              date_gt (timestamp tx) inflowTime \<and>
                              date_lt (timestamp tx) twoHoursLater \<and>
                              within_rel (amount tx) (amount inflow) (1 / 10)) txs of
           None \<Rightarrow> None
         | Some out \<Rightarrow>
             (case (timestamp out, inflowTime) of
                (Some t, Some t0) \<Rightarrow> Some (jdiv (of_int (t - t0)) (1000 * 60))
              | _ \<Rightarrow> None))"

text \<open>The source sorts the inflows by time before the loop; this orders the list \<open>cycles\<close>
  only, and the count and the average kept here do not depend on it.\<close>

definition detectLayering :: "string \<Rightarrow> transaction list \<Rightarrow> pattern option" where
  "detectLayering accountId txs =
     (let inflows = filter (\<lambda>tx. receiver tx = accountId) txs;
          rapidCycles = List.map_filter (rapidCycle accountId txs) inflows
      in if length rapidCycles \<ge> 3 then
           Some \<lparr>p_type = layering, p_severity = High,
                 p_evidence = LayeringEvidence (length rapidCycles)
                    (jdiv (foldl (\<lambda>sum c. jadd sum c) 0 rapidCycles) (of_nat (length rapidCycles)))\<rparr>
         else None)"

definition detectStructuring :: "clock \<Rightarrow> string \<Rightarrow> transaction list \<Rightarrow> baseline \<Rightarrow> pattern option" where
  "detectStructuring clk accountId txs b =
     (let defaultThreshold = 10000;
          upperTypical = snd (typicalAmountRange b);
          threshold = max (jmul upperTypical (11 / 10)) defaultThreshold;
          lowerBound = jmul threshold (85 / 100);
          upperBound = jmul threshold (99 / 100);
          structuredTxs = filter (\<lambda>tx. sender tx = accountId \<and>
                                        amount tx \<ge> lowerBound \<and>
                                        amount tx \<le> upperBound) txs
      in if length structuredTxs \<ge> 3 then
           (let dates = map (\<lambda>tx. toDateString clk (timestamp tx)) structuredTxs;
                uniqueDays = set_size dates
            in if uniqueDays \<ge> 2 then
                 Some \<lparr>p_type = structuring, p_severity = High,
                       p_evidence = StructuringEvidence (length structuredTxs) uniqueDays threshold
                          (jdiv (sumAmounts structuredTxs) (of_nat (length structuredTxs)))\<rparr>
               else None)
         else None)"

definition detectIncomeMismatch :: "clock \<Rightarrow> string \<Rightarrow> transaction list \<Rightarrow> pattern option" where
  "detectIncomeMismatch clk accountId txs =
     (let b = calculateBaseline clk accountId txs in
      if accountAge b < 7 then None
      else
        (let recentTxs = getRecentActivity clk accountId txs (24 * 7);
             recentInflows = filter (\<lambda>tx. receiver tx = accountId) recentTxs;
             recentInflowTotal = sumAmounts recentInflows;
             recentDailyAvg = jdiv recentInflowTotal 7
         in if avgDailyInflow b > 0 then
              (let ratio = jdiv recentDailyAvg (avgDailyInflow b) in
               if ratio > 3 then
                 Some \<lparr>p_type = income_mismatch,
                       p_severity = (if ratio > 5 then High else Medium),
                       p_evidence = MismatchEvidence recentDailyAvg (avgDailyInflow b) ratio (accountAge b)\<rparr>
               else None)
            else None))"

definition detectPatterns :: "clock \<Rightarrow> string \<Rightarrow> transaction list \<Rightarrow> pattern list" where
  "detectPatterns clk accountId txs =
     (let b = calculateBaseline clk accountId txs;
          recentTxs = getRecentActivity clk accountId txs 48
      in List.map_filter id
           [detectSmurfing accountId recentTxs,
            detectLayering accountId txs,
            detectStructuring clk accountId txs b,
            detectIncomeMismatch clk accountId txs])"

section \<open>Records of the evidence engine, the alert generator and the store\<close>

datatype suspicious_type =
  baseline_deviation | frequency_spike | sender_count_spike | similar_value_repeat | unusual_timing

text \<open>An entry of the list of suspicious transactions: \<open>txId\<close>, \<open>type\<close>, the \<open>deviations\<close> of
  a baseline deviation (empty for the other types, whose \<open>flag\<close> holds a description only)
  and the transaction itself.\<close>

record suspicious =
  s_txId :: string
  s_type :: suspicious_type
  s_deviations :: "deviation list"
  s_transaction :: transaction

datatype signal_type = circular_flow | hub_account | flagged_links

text \<open>The \<open>evidence\<close> of a network signal: the main path of a circular flow; uniqueSenders,
  uniqueReceivers, rapidRedistributions, totalInflows, totalOutflows of a hub; the linked
  accounts and the connecting transactions of flagged links.\<close>

datatype signal_evidence =
    CircularEvidence "transaction list"
  | HubEvidence nat nat nat nat nat
  | LinksEvidence "string list" "transaction list"

record signal =
  sig_type :: signal_type
  sig_severity :: severity
  sig_evidence :: signal_evidence

record network_analysis =
  n_accountId :: string
  networkSignals :: nat
  isProbableML :: bool
  signals :: "signal list"

text \<open>The evaluation of an account. The nested objects \<open>evidence\<close> and \<open>details\<close> of the
  source are flattened: \<open>ev_\<close> fields are \<open>evidence\<close>, the three lists are \<open>details\<close>.\<close>

record evaluation =
  e_accountId :: string
  score :: int
  riskLevel :: risk_level
  ev_suspiciousTransactions :: nat
  ev_confirmedPatterns :: nat
  ev_networkSignals :: nat
  ev_isProbableML :: bool
  suspiciousTxs :: "suspicious list"
  patterns :: "pattern list"
  d_networkSignals :: "signal list"
  e_baseline :: baseline
  e_timestamp :: int

record account_evidence =
  ae_score :: int
  ae_riskLevel :: risk_level
  ae_suspiciousTransactions :: nat
  ae_confirmedPatterns :: nat
  ae_networkSignals :: nat
  ae_isProbableML :: bool
  ae_lastUpdated :: int

text \<open>An alert. Its id is \<open>'ALERT-' + Date.now()\<close>, kept as the number. The text fields
  \<open>behaviorSummary\<close>, \<open>detectedPatterns\<close>, \<open>timeline\<close> and \<open>networkRelationships\<close> are renderings
  of the evaluation and of nothing else; the model keeps the evaluation they are rendered
  from in \<open>rendered_from\<close>.\<close>

record alert =
  alert_id :: int
  a_accountId :: string
  a_severity :: severity
  a_riskLevel :: risk_level
  a_score :: int
  a_timestamp :: int
  a_status :: string
  a_summary :: string
  evidenceBreakdown :: "nat \<times> nat \<times> nat"
  recommendations :: "string list"
  rendered_from :: evaluation

text \<open>The \<open>details\<close> string of an audit record is a template filled with values; the model keeps
  the template and the values: the initialization message, \<open>ID: ..., Amount: ...\<close> of an added
  transaction, and \<open>SEVERITY alert for account ...: summary\<close> of a saved alert.\<close>

datatype audit_details =
    Initialized
  | TransactionAdded string rat
  | AlertSaved severity string string

text \<open>The id of an audit record is \<open>Date.now().toString(36)\<close> followed by
  \<open>Math.random().toString(36).substr(2)\<close>: the clock reading and the random string.\<close>

record audit_log =
  log_id :: "int \<times> string"
  log_timestamp :: int
  log_user :: string
  log_action :: string
  log_details :: audit_details

text \<open>The document kept in local storage. The lists \<open>users\<close> and \<open>watchlist\<close> are never read or
  written by the engine and are left out. \<open>accountEvidence\<close> is a plain object used as a
  dictionary: the list of its own properties in the order in which JavaScript enumerates
  them and \<open>JSON.stringify\<close> writes them (see \<open>setProperty\<close> below). The last field is not
  part of the document: it is the state of the runtime's random number generator, the
  number of results of \<open>Math.random()\<close> consumed so far, kept here so that every operation
  maps a store to a store.\<close>

record store =
  transactions :: "transaction list"
  alerts :: "alert list"
  auditLogs :: "audit_log list"
  accountEvidence :: "(string \<times> account_evidence) list"
  prng :: nat

section \<open>Plain objects as dictionaries\<close>

text \<open>A key is an array index when it is the canonical decimal form of an integer from 0 to
  \<open>2^32 - 2\<close>. JavaScript enumerates the own properties of an object with the array indices
  first, in ascending order, and the other keys after them in the order of their creation.\<close>

definition isDigit :: "char \<Rightarrow> bool" where
  "isDigit c = (c \<in> set ''0123456789'')"

definition digitValue :: "char \<Rightarrow> nat" where
  "digitValue c = length (takeWhile (\<lambda>d. d \<noteq> c) ''0123456789'')"

definition indexValue :: "string \<Rightarrow> nat" where
  "indexValue k = foldl (\<lambda>n c. 10 * n + digitValue c) 0 k"

definition isArrayIndex :: "string \<Rightarrow> bool" where
  "isArrayIndex k =
     (k \<noteq> [] \<and> list_all isDigit k \<and> (if hd k = CHR ''0'' then k = ''0'' else True) \<and>
      length k \<le> 10 \<and> indexValue k \<le> 4294967294)"

fun insertIndexed :: "string \<Rightarrow> 'v \<Rightarrow> (string \<times> 'v) list \<Rightarrow> (string \<times> 'v) list" where
  "insertIndexed k v [] = [(k, v)]"
| "insertIndexed k v (p # ps) =
     (if isArrayIndex (fst p) \<and> indexValue (fst p) < indexValue k
      then p # insertIndexed k v ps
      else (k, v) # p # ps)"

text \<open>The assignment \<open>obj[k] = v\<close> on an object whose prototype is \<open>Object.prototype\<close>,
  followed by the round trip through \<open>JSON.stringify\<close> and \<open>JSON.parse\<close> that \<open>saveData\<close> and
  \<open>getData\<close> make. An existing own property keeps its place and gets the value. Otherwise
  the key \<open>__proto__\<close> reaches the setter inherited from \<open>Object.prototype\<close>: the assignment
  changes the prototype of the object in memory, creates no own property, and nothing of it
  is written to the document. Any other new key becomes an own property.\<close>

definition setProperty :: "string \<Rightarrow> 'v \<Rightarrow> (string \<times> 'v) list \<Rightarrow> (string \<times> 'v) list" where
  "setProperty k v obj =
     (if map_of obj k \<noteq> None then AList.update k v obj
      else if k = ''__proto__'' then obj
      else if isArrayIndex k then insertIndexed k v obj
      else obj @ [(k, v)])"

text \<open>The names that every plain object inherits from \<open>Object.prototype\<close>. Reading one of
  them from an object without an own property of that name gives the inherited member, a
  function, or \<open>Object.prototype\<close> itself for \<open>__proto__\<close>; all of them are truthy.\<close>

definition objectPrototypeNames :: "string list" where
  "objectPrototypeNames =
     [''constructor'', ''__defineGetter__'', ''__defineSetter__'', ''hasOwnProperty'',
      ''__lookupGetter__'', ''__lookupSetter__'', ''isPrototypeOf'', ''propertyIsEnumerable'',
      ''toString'', ''valueOf'', ''__proto__'', ''toLocaleString'']"

section \<open>Store\<close>

text \<open>The results of \<open>Math.random()\<close>, already rendered, are a parameter \<open>rnd\<close>: the \<open>i\<close>-th call
  returns \<open>rnd i\<close>.\<close>

definition logAudit :: "clock \<Rightarrow> (nat \<Rightarrow> string) \<Rightarrow> string \<Rightarrow> string \<Rightarrow> audit_details \<Rightarrow> store \<Rightarrow> store" where
  "logAudit clk rnd user action details s =
     s\<lparr>auditLogs := \<lparr>log_id = (now clk, rnd (prng s)), log_timestamp = now clk,
                      log_user = user, log_action = action, log_details = details\<rparr> # auditLogs s,
       prng := Suc (prng s)\<rparr>"

definition init :: "clock \<Rightarrow> (nat \<Rightarrow> string) \<Rightarrow> store" where
  "init clk rnd =
     logAudit clk rnd ''System'' ''Initialization'' Initialized
       \<lparr>transactions = [], alerts = [], auditLogs = [], accountEvidence = [], prng = 0\<rparr>"

definition addTransaction :: "clock \<Rightarrow> (nat \<Rightarrow> string) \<Rightarrow> transaction \<Rightarrow> store \<Rightarrow> store" where
  "addTransaction clk rnd tx s =
     logAudit clk rnd ''System'' ''Transaction Added'' (TransactionAdded (tx_id tx) (amount tx))
       (s\<lparr>transactions := tx # transactions s\<rparr>)"

definition getTransactions :: "store \<Rightarrow> transaction list" where
  "getTransactions s = transactions s"

section \<open>NetworkAnalyzer\<close>

text \<open>The elements of \<open>new Set(xs)\<close> in insertion order.\<close>

definition set_elems :: "'a list \<Rightarrow> 'a list" where
  "set_elems xs = rev (remdups (rev xs))"

text \<open>The depth-first search over outgoing transactions. A transaction is used once on a
  path (\<open>visited\<close> holds transaction ids); the recursion ends because the path grows up to
  \<open>maxDepth\<close>.\<close>

function traceFundPaths ::
  "string \<Rightarrow> transaction list \<Rightarrow> nat \<Rightarrow> transaction list \<Rightarrow> string set \<Rightarrow> transaction list list" where
  "traceFundPaths startAccount txs maxDepth currentPath visited =
     (if length currentPath \<ge> maxDepth then [currentPath]
      else
        (let lastAccount = (if length currentPath > 0 then receiver (last currentPath) else startAccount);
             outflows = filter (\<lambda>tx. sender tx = lastAccount \<and> tx_id tx \<notin> visited) txs
         in if length outflows = 0 then (if length currentPath > 0 then [currentPath] else [])
            else concat (map (\<lambda>tx. traceFundPaths startAccount txs maxDepth
                                      (currentPath @ [tx]) (insert (tx_id tx) visited)) outflows)))"
  by pat_completeness auto
termination
  by (relation "measure (\<lambda>(startAccount, txs, maxDepth, currentPath, visited). maxDepth - length currentPath)") auto

text \<open>The callback of the \<open>reduce\<close> that keeps the first longest path. Reading the last
  element of an empty path would throw; with depth 5 the search returns no empty path, and
  the filter below says so.\<close>

definition longer :: "'a list \<Rightarrow> 'a list \<Rightarrow> 'a list" where
  "longer longest current = (if length current > length longest then current else longest)"

definition detectCircularFlow :: "string \<Rightarrow> transaction list \<Rightarrow> signal option" where
  "detectCircularFlow accountId txs =
     (let paths = traceFundPaths accountId txs 5 [] {};
          circularPaths = filter (\<lambda>path. path \<noteq> [] \<and> receiver (last path) = accountId \<and> length path \<ge> 3) paths
      in case circularPaths of
           [] \<Rightarrow> None
         | p0 # rest \<Rightarrow>
             Some \<lparr>sig_type = circular_flow, sig_severity = Critical,
                   sig_evidence = CircularEvidence (foldl longer p0 rest)\<rparr>)"

text \<open>The time difference \<open>(outflowTime - inflowTime) / (1000 * 60 * 60)\<close> in hours lies
  strictly between 0 and 24.\<close>

definition redistributes :: "transaction \<Rightarrow> transaction \<Rightarrow> bool" where
  "redistributes inflow outflow =
     (case (timestamp outflow, timestamp inflow) of
        (Some t, Some t0) \<Rightarrow>
          (let timeDiff = jdiv (of_int (t - t0)) (1000 * 60 * 60) in timeDiff > 0 \<and> timeDiff < 24)
      | _ \<Rightarrow> False)"

definition detectHubBehavior :: "string \<Rightarrow> transaction list \<Rightarrow> signal option" where
  "detectHubBehavior accountId txs =
     (let inflows = filter (\<lambda>tx. receiver tx = accountId) txs;
          outflows = filter (\<lambda>tx. sender tx = accountId) txs;
          uniqueSenders = set_size (map sender inflows);
          uniqueReceivers = set_size (map receiver outflows)
      in if uniqueSenders \<ge> 5 \<and> uniqueReceivers \<ge> 5 then
           (let rapidRedistributions =
                  length (filter (\<lambda>inflow. List.find (redistributes inflow) outflows \<noteq> None) inflows)
            in if rapidRedistributions \<ge> 3 then
                 Some \<lparr>sig_type = hub_account, sig_severity = Critical,
                       sig_evidence = HubEvidence uniqueSenders uniqueReceivers rapidRedistributions
                                        (length inflows) (length outflows)\<rparr>
               else None)
         else None)"

definition counterparty :: "string \<Rightarrow> transaction \<Rightarrow> string" where
  "counterparty accountId tx = (if sender tx = accountId then receiver tx else sender tx)"

definition detectFlaggedLinks :: "store \<Rightarrow> string \<Rightarrow> transaction list \<Rightarrow> signal option" where
  "detectFlaggedLinks s accountId txs =
     (let flaggedAccounts =
            map fst (filter (\<lambda>(acc, ev). ae_riskLevel ev = HighRisk \<or> ae_riskLevel ev = ProbableML)
                            (accountEvidence s))
      in if length flaggedAccounts = 0 then None
         else
           (let connections =
                  filter (\<lambda>tx. (sender tx = accountId \<and> receiver tx \<in> set flaggedAccounts) \<or>
                               (receiver tx = accountId \<and> sender tx \<in> set flaggedAccounts)) txs
            in if length connections > 0 then
                 Some \<lparr>sig_type = flagged_links, sig_severity = High,
                       sig_evidence = LinksEvidence (set_elems (map (counterparty accountId) connections))
                                        connections\<rparr>
               else None))"

definition analyzeAccount :: "store \<Rightarrow> string \<Rightarrow> transaction list \<Rightarrow> network_analysis" where
  "analyzeAccount s accountId txs =
     (let sigs = List.map_filter id
                   [detectCircularFlow accountId txs,
                    detectHubBehavior accountId txs,
                    detectFlaggedLinks s accountId txs]
      in \<lparr>n_accountId = accountId, networkSignals = length sigs,
          isProbableML = (length sigs \<ge> 2), signals = sigs\<rparr>)"

section \<open>EvidenceEngine\<close>

definition checkUnusualTiming :: "clock \<Rightarrow> transaction \<Rightarrow> transaction list \<Rightarrow> bool" where
  "checkUnusualTiming clk tx accountHistory =
     (case getHours clk (timestamp tx) of
        None \<Rightarrow> False
      | Some hour \<Rightarrow>
          (if hour \<ge> 0 \<and> hour < 5 then
             (let normalHourTxs =
                    filter (\<lambda>t. case getHours clk (timestamp t) of
                                  None \<Rightarrow> False | Some h \<Rightarrow> h \<ge> 5 \<and> h < 24) accountHistory
              in of_nat (length normalHourTxs) > jmul (of_nat (length accountHistory)) (8 / 10))
           else False))"

text \<open>The transactions of the account counted by the similar-value test for \<open>tx\<close>.\<close>

definition similarTxs :: "transaction list \<Rightarrow> transaction \<Rightarrow> transaction list" where
  "similarTxs accountTxs tx =
     (let windowStart = map_option (\<lambda>t. t - 24 * 60 * 60 * 1000) (timestamp tx) in
      filter (\<lambda>other. date_ge (timestamp other) windowStart \<and>
                      within_rel (amount other) (amount tx) (5 / 100)) accountTxs)"

definition entry :: "suspicious_type \<Rightarrow> deviation list \<Rightarrow> transaction \<Rightarrow> suspicious" where
  "entry ty ds tx = \<lparr>s_txId = tx_id tx, s_type = ty, s_deviations = ds, s_transaction = tx\<rparr>"

definition findSuspiciousTransactions ::
  "clock \<Rightarrow> string \<Rightarrow> transaction list \<Rightarrow> baseline \<Rightarrow> suspicious list" where
  "findSuspiciousTransactions clk accountId txs b =
     (let accountTxs = filter (touches accountId) txs;
          todaysTxs = filter (\<lambda>tx. date_ge (timestamp tx) (Some (startOfDay clk))) accountTxs;
          txCountToday = length todaysTxs;
          uniqueSendersToday =
            set_size (map sender (filter (\<lambda>tx. receiver tx = accountId) todaysTxs))
      in concat (map (\<lambda>tx.
           (if sender tx = accountId then
              (let deviation = checkDeviation tx b in
               if hasDeviation deviation then [entry baseline_deviation (deviations deviation) tx]
               else [])
            else []) @
           (if avgTxFrequency b > 0 \<and> of_nat txCountToday > jmul (avgTxFrequency b) 3
            then [entry frequency_spike [] tx] else []) @
           (if receiver tx = accountId \<and> avgUniqueSenders b > 0 \<and>
               of_nat uniqueSendersToday > jmul (avgUniqueSenders b) 2
            then [entry sender_count_spike [] tx] else []) @
           (if length (similarTxs accountTxs tx) \<ge> 3
            then [entry similar_value_repeat [] tx] else []) @
           (if checkUnusualTiming clk tx accountTxs
            then [entry unusual_timing [] tx] else [])) accountTxs))"

definition calculateScore :: "suspicious list \<Rightarrow> pattern list \<Rightarrow> network_analysis \<Rightarrow> int" where
  "calculateScore sus pats net =
     (let score0 = 0;
          score1 = score0 + int (length sus) * 10;
          score2 = score1 + int (length pats) * 20;
          score3 = score2 + int (networkSignals net) * 30;
          score4 = (if isProbableML net then score3 + 20 else score3)
      in min score4 100)"

definition getRiskLevel :: "int \<Rightarrow> risk_level" where
  "getRiskLevel sc =
     (if sc \<ge> 80 then ProbableML
      else if sc \<ge> 60 then HighRisk
      else if sc \<ge> 30 then Suspicious
      else Normal)"

definition evaluateAccount :: "clock \<Rightarrow> store \<Rightarrow> string \<Rightarrow> evaluation" where
  "evaluateAccount clk s accountId =
     (let txs = getTransactions s;
          b = calculateBaseline clk accountId txs;
          sus = findSuspiciousTransactions clk accountId txs b;
          pats = detectPatterns clk accountId txs;
          networkAnalysis = analyzeAccount s accountId txs;
          sc = calculateScore sus pats networkAnalysis;
          level = getRiskLevel sc
      in \<lparr>e_accountId = accountId, score = sc, riskLevel = level,
          ev_suspiciousTransactions = length sus,
          ev_confirmedPatterns = length pats,
          ev_networkSignals = networkSignals networkAnalysis,
          ev_isProbableML = isProbableML networkAnalysis,
          suspiciousTxs = sus, patterns = pats, d_networkSignals = signals networkAnalysis,
          e_baseline = b, e_timestamp = now clk\<rparr>)"

text \<open>\<open>data.accountEvidence[accountId] || null\<close>: the own property when there is one, else
  the member inherited from \<open>Object.prototype\<close> when the account id names one, else null.\<close>

datatype evidence_lookup = NoEvidence | Evidence account_evidence | InheritedMember

definition getAccountEvidence :: "store \<Rightarrow> string \<Rightarrow> evidence_lookup" where
  "getAccountEvidence s accountId =
     (case map_of (accountEvidence s) accountId of
        Some r \<Rightarrow> Evidence r
      | None \<Rightarrow> if accountId \<in> set objectPrototypeNames then InheritedMember else NoEvidence)"

definition updateAccountEvidence :: "evaluation \<Rightarrow> store \<Rightarrow> store" where
  "updateAccountEvidence e s =
     s\<lparr>accountEvidence :=
         setProperty (e_accountId e)
           \<lparr>ae_score = score e, ae_riskLevel = riskLevel e,
            ae_suspiciousTransactions = ev_suspiciousTransactions e,
            ae_confirmedPatterns = ev_confirmedPatterns e,
            ae_networkSignals = ev_networkSignals e,
            ae_isProbableML = ev_isProbableML e,
            ae_lastUpdated = e_timestamp e\<rparr>
           (accountEvidence s)\<rparr>"

section \<open>AlertGenerator\<close>

text \<open>The mapping object has the four risk levels as keys; the fallback \<open>|| 'low'\<close> of the
  source is for other strings, which the type excludes.\<close>

fun mapRiskToSeverity :: "risk_level \<Rightarrow> severity" where
  "mapRiskToSeverity Normal = Low"
| "mapRiskToSeverity Suspicious = Medium"
| "mapRiskToSeverity HighRisk = High"
| "mapRiskToSeverity ProbableML = Critical"

text \<open>A count interpolated into a template string: its decimal digits.\<close>

fun show_nat :: "nat \<Rightarrow> string" where
  "show_nat n =
     (if n < 10 then [''0123456789'' ! n]
      else show_nat (n div 10) @ [''0123456789'' ! (n mod 10)])"

declare show_nat.simps [simp del]

fun join :: "string \<Rightarrow> string list \<Rightarrow> string" where
  "join sep [] = []"
| "join sep [x] = x"
| "join sep (x # y # ys) = x @ sep @ join sep (y # ys)"

fun pattern_name :: "pattern_type \<Rightarrow> string" where
  "pattern_name smurfing = ''smurfing''"
| "pattern_name layering = ''layering''"
| "pattern_name structuring = ''structuring''"
| "pattern_name income_mismatch = ''income_mismatch''"

definition generateSummary :: "evaluation \<Rightarrow> string" where
  "generateSummary e =
     (let parts =
            (if ev_suspiciousTransactions e > 0
             then [show_nat (ev_suspiciousTransactions e) @ '' suspicious transactions''] else []) @
            (if ev_confirmedPatterns e > 0
             then [''patterns detected: '' @ join '', '' (map (\<lambda>p. pattern_name (p_type p)) (patterns e))]
             else []) @
            (if ev_networkSignals e > 0
             then [show_nat (ev_networkSignals e) @ '' network signals''] else [])
      in ''Account '' @ [CHR 0x22] @ e_accountId e @ [CHR 0x22] @ '': '' @ join '', '' parts)"

definition generateRecommendations :: "evaluation \<Rightarrow> string list" where
  "generateRecommendations e =
     (if riskLevel e = ProbableML then
        [''IMMEDIATE ACTION REQUIRED: File Suspicious Activity Report (SAR)'',
         ''Escalate to compliance team for investigation'',
         ''Consider account freeze pending investigation'']
      else if riskLevel e = HighRisk then
        [''Enhanced due diligence required'',
         ''Review account activity with compliance team'',
         ''Monitor closely for additional suspicious activity'']
      else if riskLevel e = Suspicious then
        [''Continue monitoring account activity'',
         ''Document suspicious patterns'',
         ''Escalate if additional evidence emerges'']
      else [])"

definition generateAlert :: "clock \<Rightarrow> evaluation \<Rightarrow> alert option" where
  "generateAlert clk e =
     (if score e < 30 then None
      else Some \<lparr>alert_id = now clk,
                 a_accountId = e_accountId e,
                 a_severity = mapRiskToSeverity (riskLevel e),
                 a_riskLevel = riskLevel e,
                 a_score = score e,
                 a_timestamp = now clk,
                 a_status = ''open'',
                 a_summary = generateSummary e,
                 evidenceBreakdown =
                   (ev_suspiciousTransactions e, ev_confirmedPatterns e, ev_networkSignals e),
                 recommendations = generateRecommendations e,
                 rendered_from = e\<rparr>)"

text \<open>The clock readings of a call that come after the first \<open>k\<close>, and the readings of a
  clock that stands still.\<close>

definition shift :: "nat \<Rightarrow> (nat \<Rightarrow> clock) \<Rightarrow> nat \<Rightarrow> clock" where
  "shift k ck i = ck (i + k)"

definition always :: "clock \<Rightarrow> nat \<Rightarrow> clock" where
  "always clk i = clk"

text \<open>The result is the value returned together with the store left behind. The call
  reads the clock in four steps: for the evaluation (\<open>ck 0\<close>), for the id and the timestamp
  of the alert in \<open>generateAlert\<close> (\<open>ck 1\<close>), for the one-hour cutoff of the duplicate check
  (\<open>ck 2\<close>), and for the audit record (\<open>ck 3\<close>).\<close>

definition createAndSaveAlert ::
  "(nat \<Rightarrow> clock) \<Rightarrow> (nat \<Rightarrow> string) \<Rightarrow> string \<Rightarrow> store \<Rightarrow> alert option \<times> store" where
  "createAndSaveAlert ck rnd accountId s =
     (let e = evaluateAccount (ck 0) s accountId in
      case generateAlert (ck 1) e of
        None \<Rightarrow> (None, s)
      | Some alert \<Rightarrow>
          (let oneHourAgo = now (ck 2) - 60 * 60 * 1000;
               existingAlert =
                 List.find (\<lambda>a. a_accountId a = accountId \<and> a_timestamp a > oneHourAgo) (alerts s)
           in (Some alert,
               (case existingAlert of
                  None \<Rightarrow>
                    logAudit (ck 3) rnd ''System'' ''Alert Generated''
                      (AlertSaved (a_severity alert) accountId (a_summary alert))
                      (s\<lparr>alerts := alerts s @ [alert]\<rparr>)
                | Some found \<Rightarrow> s))))"

section \<open>AMLEngine\<close>

record account_result =
  r_accountId :: string
  r_riskLevel :: risk_level
  r_score :: int
  alertGenerated :: bool

record process_result =
  transactionId :: string
  processed :: bool
  accounts :: "account_result list"
  highestRisk :: evaluation

text \<open>The body of the loop over the two accounts of a transaction: the evaluation, the id
  of the alert that \<open>createAndSaveAlert\<close> returned (the source sets \<open>alertGenerated\<close> and
  \<open>alertId\<close> on the evaluation) and the store. The evaluation reads the clock at step 0,
  \<open>createAndSaveAlert\<close> at the four steps after it.\<close>

definition processAccount ::
  "(nat \<Rightarrow> clock) \<Rightarrow> (nat \<Rightarrow> string) \<Rightarrow> string \<Rightarrow> store \<Rightarrow> (evaluation \<times> int option) \<times> store" where
  "processAccount ck rnd accountId s =
     (let e = evaluateAccount (ck 0) s accountId;
          s1 = updateAccountEvidence e s
      in if score e \<ge> 30 then
           (case createAndSaveAlert (shift 1 ck) rnd accountId s1 of
              (None, s2) \<Rightarrow> ((e, None), s2)
            | (Some alert, s2) \<Rightarrow> ((e, Some (alert_id alert)), s2))
         else ((e, None), s1))"

definition accountResult :: "evaluation \<times> int option \<Rightarrow> account_result" where
  "accountResult r =
     \<lparr>r_accountId = e_accountId (fst r), r_riskLevel = riskLevel (fst r), r_score = score (fst r),
      alertGenerated = (snd r \<noteq> None)\<rparr>"

text \<open>The audit record of the added transaction reads the clock at step 0, the sender's
  account takes the steps 1 to 5, the receiver's the steps 6 to 10.\<close>

definition processTransaction ::
  "(nat \<Rightarrow> clock) \<Rightarrow> (nat \<Rightarrow> string) \<Rightarrow> transaction \<Rightarrow> store \<Rightarrow> process_result \<times> store" where
  "processTransaction ck rnd tx s =
     (let s1 = addTransaction (ck 0) rnd tx s;
          (r1, s2) = processAccount (shift 1 ck) rnd (sender tx) s1;
          (r2, s3) = processAccount (shift 6 ck) rnd (receiver tx) s2;
          evaluations = [r1, r2]
      in (\<lparr>transactionId = tx_id tx, processed = True,
           accounts = map accountResult evaluations,
           highestRisk = (if score (fst r2) > score (fst r1) then fst r2 else fst r1)\<rparr>,
          s3))"

definition allAccounts :: "transaction list \<Rightarrow> string list" where
  "allAccounts txs = set_elems (concat (map (\<lambda>tx. [sender tx, receiver tx]) txs))"

text \<open>The evaluation of the \<open>i\<close>-th account reads the clock at step \<open>i\<close>.\<close>

definition evaluateAllAccounts :: "(nat \<Rightarrow> clock) \<Rightarrow> store \<Rightarrow> evaluation list \<times> store" where
  "evaluateAllAccounts ck s =
     foldl (\<lambda>(results, s') (i, accountId).
              (let e = evaluateAccount (ck i) s' accountId
               in (results @ [e], updateAccountEvidence e s')))
           ([], s) (List.enumerate 0 (allAccounts (getTransactions s)))"

record analysis_result =
  totalAccounts :: nat
  highRiskAccounts :: nat
  suspiciousAccounts :: nat
  alertsGenerated :: nat

text \<open>After the evaluations of the \<open>n\<close> accounts, the call of \<open>createAndSaveAlert\<close> for the
  \<open>j\<close>-th result takes the four steps from \<open>n + 4 * j\<close> on.\<close>

definition runFullAnalysis ::
  "(nat \<Rightarrow> clock) \<Rightarrow> (nat \<Rightarrow> string) \<Rightarrow> store \<Rightarrow> analysis_result \<times> store" where
  "runFullAnalysis ck rnd s =
     (let (results, s1) = evaluateAllAccounts ck s;
          s2 = foldl (\<lambda>s' (j, e). if score e \<ge> 30
                              then snd (createAndSaveAlert (shift (length results + 4 * j) ck) rnd
                                          (e_accountId e) s')
                              else s')
                     s1 (List.enumerate 0 results)
      in (\<lparr>totalAccounts = length results,
           highRiskAccounts = length (filter (\<lambda>r. score r \<ge> 60) results),
           suspiciousAccounts = length (filter (\<lambda>r. score r \<ge> 30 \<and> score r < 60) results),
           alertsGenerated = length (alerts s2)\<rparr>,
          s2))"

section \<open>The specification's notions\<close>

text \<open>\<open>clamp(x, lo, hi)\<close> of the scoring formula.\<close>

definition clamp :: "int \<Rightarrow> int \<Rightarrow> int \<Rightarrow> int" where
  "clamp x lo hi = max lo (min x hi)"

text \<open>The risk bands as the specification lists them: Normal on \<open>[0,30)\<close>, Suspicious on
  \<open>[30,60)\<close>, HighRisk on \<open>[60,80)\<close>, ProbableML on \<open>[80,100]\<close>, and no band elsewhere.\<close>

definition band :: "int \<Rightarrow> risk_level option" where
  "band sc =
     (if 0 \<le> sc \<and> sc < 30 then Some Normal
      else if 30 \<le> sc \<and> sc < 60 then Some Suspicious
      else if 60 \<le> sc \<and> sc < 80 then Some HighRisk
      else if 80 \<le> sc \<and> sc \<le> 100 then Some ProbableML
      else None)"

text \<open>The test of the duplicate check of \<open>createAndSaveAlert\<close>: an alert of the account
  newer than one hour before the clock reading.\<close>

definition recentFor :: "clock \<Rightarrow> string \<Rightarrow> alert \<Rightarrow> bool" where
  "recentFor clk accountId a = (a_accountId a = accountId \<and> a_timestamp a > now clk - 60 * 60 * 1000)"

text \<open>The similar-value test as the specification words it: at least three transactions
  touching the account lie in the 24 hours up to the time of \<open>tx\<close>, none after it, with an
  amount within 5 percent of that of \<open>tx\<close>.\<close>

definition spec_similar_value_repeat :: "string \<Rightarrow> transaction list \<Rightarrow> transaction \<Rightarrow> bool" where
  "spec_similar_value_repeat accountId txs tx =
     (length (filter (\<lambda>other. touches accountId other \<and>
                (case (timestamp other, timestamp tx) of
                   (Some t, Some t0) \<Rightarrow> t0 - 24 * 60 * 60 * 1000 \<le> t \<and> t \<le> t0
                 | _ \<Rightarrow> False) \<and>
                within_rel (amount other) (amount tx) (5 / 100)) txs) \<ge> 3)"

text \<open>A run ingests a sequence of transactions through \<open>processTransaction\<close>, one call
  after the other, under a fixed clock: every reading is the same.\<close>

definition ingest :: "clock \<Rightarrow> (nat \<Rightarrow> string) \<Rightarrow> transaction list \<Rightarrow> store \<Rightarrow> store" where
  "ingest clk rnd txs s = foldl (\<lambda>s' tx. snd (processTransaction (always clk) rnd tx s')) s txs"

text \<open>An audit record without the random part of its id.\<close>

definition without_random :: "audit_log \<Rightarrow> int \<times> int \<times> string \<times> string \<times> audit_details" where
  "without_random l = (fst (log_id l), log_timestamp l, log_user l, log_action l, log_details l)"

text \<open>Two stores hold the same transactions, account evidence and alerts, and the same
  audit records up to the random part of the ids.\<close>

definition same_but_random_ids :: "store \<Rightarrow> store \<Rightarrow> bool" where
  "same_but_random_ids s s' =
     (transactions s = transactions s' \<and> accountEvidence s = accountEvidence s' \<and>
      alerts s = alerts s' \<and>
      map without_random (auditLogs s) = map without_random (auditLogs s'))"


text \<open>\<open>reachable t s\<close>: the store \<open>s\<close> is what the entry points \<open>processTransaction\<close>,
  \<open>createAndSaveAlert\<close> and \<open>runFullAnalysis\<close> have produced by the time \<open>t\<close>, starting from a
  store that holds no alert (the store that \<open>init\<close> creates is one). Time does not run
  backwards from one call to the next, and no clock reading of a call is later than the
  time at which its result is looked at; the readings within a call, the random results
  and the arguments are arbitrary.\<close>

inductive reachable :: "int \<Rightarrow> store \<Rightarrow> bool" where
  reach_start: "alerts s = [] \<Longrightarrow> reachable t s"
| reach_wait: "reachable t s \<Longrightarrow> t \<le> t' \<Longrightarrow> reachable t' s"
| reach_process:
    "reachable t s \<Longrightarrow> t \<le> t' \<Longrightarrow> (\<forall>i. now (ck i) \<le> t') \<Longrightarrow>
     reachable t' (snd (processTransaction ck rnd tx s))"
| reach_create:
    "reachable t s \<Longrightarrow> t \<le> t' \<Longrightarrow> (\<forall>i. now (ck i) \<le> t') \<Longrightarrow>
     reachable t' (snd (createAndSaveAlert ck rnd a s))"
| reach_analysis:
    "reachable t s \<Longrightarrow> t \<le> t' \<Longrightarrow> (\<forall>i. now (ck i) \<le> t') \<Longrightarrow>
     reachable t' (snd (runFullAnalysis ck rnd s))"


section \<open>Scenarios\<close>

definition clk0 :: clock where
  "clk0 = \<lparr>now = 1700000000000, tzOffset = 0\<rparr>"

definition rnd_a :: "nat \<Rightarrow> string" where
  "rnd_a i = ''a''"

definition rnd_b :: "nat \<Rightarrow> string" where
  "rnd_b i = ''b''"

definition empty_store :: store where
  "empty_store = \<lparr>transactions = [], alerts = [], auditLogs = [], accountEvidence = [], prng = 0\<rparr>"

text \<open>A transaction that is invalid in all three ways: a negative amount, the sender as
  receiver, a timestamp that does not parse.\<close>

definition bad_tx :: transaction where
  "bad_tx = \<lparr>tx_id = ''TX-1'', sender = ''A'', receiver = ''A'', amount = - 5, timestamp = None\<rparr>"

text \<open>A valid transaction, three seconds old.\<close>

definition pay_tx :: transaction where
  "pay_tx = \<lparr>tx_id = ''TX-1'', sender = ''A'', receiver = ''B'', amount = 1000,
             timestamp = Some (1700000000000 - 3000)\<rparr>"

text \<open>A transaction dated one hour after the clock reading.\<close>

definition future_tx :: transaction where
  "future_tx = \<lparr>tx_id = ''TX-1'', sender = ''A'', receiver = ''B'', amount = 100,
                 timestamp = Some (1700000000000 + 3600000)\<rparr>"

text \<open>Account A sent 100 to C ten days ago and 1000 to C two seconds ago; B sent 1000 to A
  one second ago. Newest first.\<close>

definition dev_txs :: "transaction list" where
  "dev_txs =
     [\<lparr>tx_id = ''TX-3'', sender = ''B'', receiver = ''A'', amount = 1000,
       timestamp = Some (1700000000000 - 1000)\<rparr>,
      \<lparr>tx_id = ''TX-2'', sender = ''A'', receiver = ''C'', amount = 1000,
       timestamp = Some (1700000000000 - 2000)\<rparr>,
      \<lparr>tx_id = ''TX-1'', sender = ''A'', receiver = ''C'', amount = 100,
       timestamp = Some (1700000000000 - 864001000)\<rparr>]"

text \<open>Three payments of 100 to A, ten days apart, seen on day 21.\<close>

definition rep_clk :: clock where
  "rep_clk = \<lparr>now = 21 * 86400000, tzOffset = 0\<rparr>"

definition rep_txs :: "transaction list" where
  "rep_txs =
     [\<lparr>tx_id = ''TX-3'', sender = ''X'', receiver = ''A'', amount = 100, timestamp = Some (20 * 86400000)\<rparr>,
      \<lparr>tx_id = ''TX-2'', sender = ''X'', receiver = ''A'', amount = 100, timestamp = Some (10 * 86400000)\<rparr>,
      \<lparr>tx_id = ''TX-1'', sender = ''X'', receiver = ''A'', amount = 100, timestamp = Some 0\<rparr>]"

text \<open>A circular flow A to B to C to A within three seconds, newest first as the store
  keeps it.\<close>

definition cyc_store :: store where
  "cyc_store =
     \<lparr>transactions =
        [\<lparr>tx_id = ''TX-3'', sender = ''C'', receiver = ''A'', amount = 1000,
          timestamp = Some (1700000000000 - 1000)\<rparr>,
         \<lparr>tx_id = ''TX-2'', sender = ''B'', receiver = ''C'', amount = 1000,
          timestamp = Some (1700000000000 - 2000)\<rparr>,
         \<lparr>tx_id = ''TX-1'', sender = ''A'', receiver = ''B'', amount = 1000,
          timestamp = Some (1700000000000 - 3000)\<rparr>],
      alerts = [], auditLogs = [], accountEvidence = [], prng = 0\<rparr>"

text \<open>The same store after an alert for A has been saved.\<close>

definition dup_store :: store where
  "dup_store = snd (createAndSaveAlert (always clk0) rnd_a ''A'' cyc_store)"



text \<open>A valid transaction sent by the account \<open>__proto__\<close>, and the store that holds it and
  nothing else.\<close>

definition proto_tx :: transaction where
  "proto_tx = \<lparr>tx_id = ''TX-1'', sender = ''__proto__'', receiver = ''B'', amount = 1000,
               timestamp = Some (1700000000000 - 3000)\<rparr>"

definition proto_store :: store where
  "proto_store =
     \<lparr>transactions = [proto_tx], alerts = [], auditLogs = [], accountEvidence = [], prng = 0\<rparr>"

text \<open>A payment of 0.27 and a baseline with an average daily outflow of 0.09: the quotient
  of the two binary64 values rounds to \<open>3.0000000000000004\<close>.\<close>

definition cent_tx :: transaction where
  "cent_tx = \<lparr>tx_id = ''TX-9'', sender = ''A'', receiver = ''B'', amount = fl (27 / 100),
              timestamp = Some (1700000000000 - 3000)\<rparr>"

definition cent_baseline :: baseline where
  "cent_baseline = (calculateBaseline clk0 ''A'' [])\<lparr>avgDailyOutflow := fl (9 / 100)\<rparr>"

section \<open>Properties\<close>

subsection \<open>Rounding\<close>

text \<open>A whole number below \<open>2\<^sup>5\<^sup>3\<close> in magnitude is a binary64 value: rounding leaves it as it
  is. The second equation is the one that evaluation uses.\<close>

lemma roundHalfEven_of_int: "roundHalfEven (of_int m) = m"
  by (simp add: roundHalfEven_def)

lemma fl_of_int:
  fixes n :: int
  assumes "\<bar>n\<bar> < 9007199254740992"
  shows "fl (of_int n) = of_int n"
proof (cases "n = 0")
  case True
  then show ?thesis by (simp add: fl_def)
next
  case False
  then have pos: "1 \<le> \<bar>n\<bar>" by simp
  have "\<not> 54 \<le> bitlen \<bar>n\<bar>"
    using assms bitlen_ge_iff_power[of 54 "\<bar>n\<bar>"] by simp
  then have b: "bitlen \<bar>n\<bar> \<le> 53" by simp
  define e where "e = max (bitlen \<bar>n\<bar> - 1 - 52) (- 1074)"
  define k where "k = nat (- e)"
  have e: "e \<le> 0" using b by (simp add: e_def)
  have p: "pow2 e = 1 / 2 ^ k"
    using e by (cases "e = 0") (simp_all add: pow2_def k_def)
  have "(1 :: rat) \<le> of_int \<bar>n\<bar>"
    using pos by (simp only: of_int_1_le_iff)
  then have il: "ilog2 (of_int \<bar>n\<bar>) = bitlen \<bar>n\<bar> - 1"
    unfolding ilog2_def by (simp only: if_True floor_of_int)
  have "(of_int \<bar>n\<bar> :: rat) / pow2 e = of_int (\<bar>n\<bar> * 2 ^ k)"
    by (simp add: p)
  then have r: "roundHalfEven (of_int \<bar>n\<bar> / pow2 e) = \<bar>n\<bar> * 2 ^ k"
    by (simp only: roundHalfEven_of_int)
  have ab: "\<bar>of_int n :: rat\<bar> = of_int \<bar>n\<bar>" by simp
  have "(of_int n :: rat) \<noteq> 0" using False by simp
  then have "fl (of_int n) = sgn (of_int n) * of_int (roundHalfEven (of_int \<bar>n\<bar> / pow2 e)) * pow2 e"
    unfolding fl_def Let_def ab il e_def by (simp only: if_False)
  also have "\<dots> = sgn (of_int n) * of_int \<bar>n\<bar>"
    unfolding r by (simp add: p)
  also have "\<dots> = of_int n"
    by (simp add: sgn_if)
  finally show ?thesis .
qed

lemma fl_code [code]:
  "fl x =
     (if x = of_int \<lfloor>x\<rfloor> \<and> \<bar>x\<bar> < 9007199254740992 then x
      else (let a = \<bar>x\<bar>; e = max (ilog2 a - 52) (- 1074); m = roundHalfEven (a / pow2 e)
            in sgn x * of_int m * pow2 e))"
proof (cases "x = of_int \<lfloor>x\<rfloor> \<and> \<bar>x\<bar> < 9007199254740992")
  case True
  then have "\<bar>\<lfloor>x\<rfloor>\<bar> < 9007199254740992"
    by linarith
  then have "fl (of_int \<lfloor>x\<rfloor>) = of_int \<lfloor>x\<rfloor>" by (rule fl_of_int)
  with True show ?thesis by simp
next
  case False
  then have "x \<noteq> 0" by auto
  then show ?thesis
    unfolding if_not_P[OF False] by (simp add: fl_def)
qed
subsection \<open>What each operation leaves alone\<close>

lemma logAudit_fields [simp]:
  "transactions (logAudit clk rnd u act d s) = transactions s"
  "alerts (logAudit clk rnd u act d s) = alerts s"
  "accountEvidence (logAudit clk rnd u act d s) = accountEvidence s"
  by (simp_all add: logAudit_def)

lemma addTransaction_fields [simp]:
  "transactions (addTransaction clk rnd tx s) = tx # transactions s"
  "alerts (addTransaction clk rnd tx s) = alerts s"
  "accountEvidence (addTransaction clk rnd tx s) = accountEvidence s"
  by (simp_all add: addTransaction_def)

lemma updateAccountEvidence_fields [simp]:
  "transactions (updateAccountEvidence e s) = transactions s"
  "alerts (updateAccountEvidence e s) = alerts s"
  "auditLogs (updateAccountEvidence e s) = auditLogs s"
  "prng (updateAccountEvidence e s) = prng s"
  by (simp_all add: updateAccountEvidence_def)

text \<open>An evaluation reads the transactions and the account evidence of the store, and
  nothing else of it.\<close>

lemma evaluateAccount_frame:
  "transactions s = transactions s' \<Longrightarrow> accountEvidence s = accountEvidence s' \<Longrightarrow>
   evaluateAccount clk s a = evaluateAccount clk s' a"
  by (simp add: evaluateAccount_def getTransactions_def analyzeAccount_def detectFlaggedLinks_def)

subsection \<open>Own properties\<close>

lemma map_of_insertIndexed:
  "map_of obj k = None \<Longrightarrow> map_of (insertIndexed k v obj) = (map_of obj)(k \<mapsto> v)"
proof (induction obj)
  case Nil
  then show ?case by simp
next
  case (Cons p ps)
  then have "fst p \<noteq> k" and "map_of ps k = None"
    by (auto split: if_splits)
  with Cons.IH show ?case
    by (cases p) (auto simp add: fun_upd_twist)
qed

lemma map_of_setProperty:
  "k \<noteq> ''__proto__'' \<or> map_of obj k \<noteq> None \<Longrightarrow>
   map_of (setProperty k v obj) = (map_of obj)(k \<mapsto> v)"
proof -
  have "map_of (obj @ [(k, v)]) = (map_of obj)(k \<mapsto> v)" if "map_of obj k = None"
    using that by (auto simp add: map_add_def fun_eq_iff split: option.splits)
  then show "k \<noteq> ''__proto__'' \<or> map_of obj k \<noteq> None \<Longrightarrow>
      map_of (setProperty k v obj) = (map_of obj)(k \<mapsto> v)"
    by (auto simp add: setProperty_def update_conv' map_of_insertIndexed)
qed

lemma setProperty_proto:
  "map_of obj ''__proto__'' = None \<Longrightarrow> setProperty ''__proto__'' v obj = obj"
  by (simp add: setProperty_def)

lemma map_of_setProperty_kept:
  "map_of obj k' \<noteq> None \<Longrightarrow> map_of (setProperty k v obj) k' \<noteq> None"
proof (cases "k \<noteq> ''__proto__'' \<or> map_of obj k \<noteq> None")
  case True
  assume "map_of obj k' \<noteq> None"
  with map_of_setProperty[OF True, of v] show ?thesis by auto
next
  case False
  assume "map_of obj k' \<noteq> None"
  with False show ?thesis by (simp add: setProperty_def)
qed

lemma setProperty_no_proto:
  "map_of obj ''__proto__'' = None \<Longrightarrow> map_of (setProperty k v obj) ''__proto__'' = None"
proof (cases "k = ''__proto__''")
  case True
  assume "map_of obj ''__proto__'' = None"
  with True show ?thesis by (simp add: setProperty_proto)
next
  case False
  assume "map_of obj ''__proto__'' = None"
  with False map_of_setProperty[of k obj v] show ?thesis by simp
qed

subsection \<open>Evaluation\<close>

lemma calculateScore_bounds:
  "0 \<le> calculateScore sus pats net \<and> calculateScore sus pats net \<le> 100"
  by (simp add: calculateScore_def Let_def)

lemma score_evaluateAccount:
  "score (evaluateAccount clk s a) =
     calculateScore (findSuspiciousTransactions clk a (transactions s) (calculateBaseline clk a (transactions s)))
       (detectPatterns clk a (transactions s)) (analyzeAccount s a (transactions s))"
  by (simp add: evaluateAccount_def Let_def getTransactions_def)

lemma riskLevel_evaluateAccount:
  "riskLevel (evaluateAccount clk s a) = getRiskLevel (score (evaluateAccount clk s a))"
  by (simp add: evaluateAccount_def Let_def)

lemma e_accountId_evaluateAccount [simp]: "e_accountId (evaluateAccount clk s a) = a"
  by (simp add: evaluateAccount_def Let_def)

lemma networkSignals_analyzeAccount:
  "networkSignals (analyzeAccount s a txs) = length (signals (analyzeAccount s a txs))"
  by (simp add: analyzeAccount_def Let_def)

lemma score_bounds:
  "0 \<le> score (evaluateAccount clk s a) \<and> score (evaluateAccount clk s a) \<le> 100"
  unfolding score_evaluateAccount by (rule calculateScore_bounds)

lemma getRiskLevel_band: "0 \<le> sc \<Longrightarrow> sc \<le> 100 \<Longrightarrow> band sc = Some (getRiskLevel sc)"
  by (simp add: band_def getRiskLevel_def)

text \<open>The risk level of an evaluation is the band of its score; for every account id but
  \<open>__proto__\<close>, \<open>updateAccountEvidence\<close> stores a record with that score and that level as an
  own property of the evidence object.\<close>

lemma evaluate_risk_level_band:
  "band (score (evaluateAccount clk s a)) = Some (riskLevel (evaluateAccount clk s a))"
  using score_bounds[of clk s a]
  by (simp add: riskLevel_evaluateAccount getRiskLevel_band)

lemma updateAccountEvidence_stored:
  "a \<noteq> ''__proto__'' \<Longrightarrow>
   map_option (\<lambda>r. (ae_score r, ae_riskLevel r))
     (map_of (accountEvidence (updateAccountEvidence (evaluateAccount clk s a) s)) a)
     = Some (score (evaluateAccount clk s a), riskLevel (evaluateAccount clk s a))"
  by (simp add: updateAccountEvidence_def map_of_setProperty)

subsection \<open>Alerts\<close>

lemma generateAlert_Some:
  "generateAlert clk e = Some A \<Longrightarrow>
   a_accountId A = e_accountId e \<and> a_timestamp A = now clk \<and> a_score A = score e \<and> 30 \<le> score e"
  by (auto simp add: generateAlert_def split: if_splits)

lemma generateAlert_None: "(generateAlert clk e = None) = (score e < 30)"
  by (simp add: generateAlert_def)

lemma find_recent:
  "(List.find (\<lambda>x. a_accountId x = a \<and> a_timestamp x > now clk - 60 * 60 * 1000) als = None)
     = (\<not> list_ex (recentFor clk a) als)"
  by (auto simp add: find_None_iff list_ex_iff recentFor_def)

lemma createAndSaveAlert_fst:
  "fst (createAndSaveAlert ck rnd a s) = generateAlert (ck 1) (evaluateAccount (ck 0) s a)"
  by (simp add: createAndSaveAlert_def Let_def split: option.splits)

lemma createAndSaveAlert_snd:
  "snd (createAndSaveAlert ck rnd a s) =
     (case generateAlert (ck 1) (evaluateAccount (ck 0) s a) of
        None \<Rightarrow> s
      | Some A \<Rightarrow>
          if list_ex (recentFor (ck 2) a) (alerts s) then s
          else logAudit (ck 3) rnd ''System'' ''Alert Generated''
                 (AlertSaved (a_severity A) a (a_summary A))
                 (s\<lparr>alerts := alerts s @ [A]\<rparr>))"
proof (cases "generateAlert (ck 1) (evaluateAccount (ck 0) s a)")
  case None
  then show ?thesis by (simp add: createAndSaveAlert_def Let_def)
next
  case (Some A)
  show ?thesis
  proof (cases "List.find (\<lambda>x. a_accountId x = a \<and> a_timestamp x > now (ck 2) - 60 * 60 * 1000) (alerts s)")
    case None
    with Some find_recent[of a "ck 2" "alerts s"] show ?thesis
      by (simp add: createAndSaveAlert_def Let_def)
  next
    case (Some B)
    with \<open>generateAlert (ck 1) (evaluateAccount (ck 0) s a) = Some A\<close>
      find_recent[of a "ck 2" "alerts s"]
    show ?thesis
      by (simp add: createAndSaveAlert_def Let_def)
  qed
qed

lemma createAndSaveAlert_frame [simp]:
  "transactions (snd (createAndSaveAlert ck rnd a s)) = transactions s"
  "accountEvidence (snd (createAndSaveAlert ck rnd a s)) = accountEvidence s"
  by (simp_all add: createAndSaveAlert_snd split: option.splits)

lemma createAndSaveAlert_alerts:
  "alerts (snd (createAndSaveAlert ck rnd a s)) =
     (case generateAlert (ck 1) (evaluateAccount (ck 0) s a) of
        None \<Rightarrow> alerts s
      | Some A \<Rightarrow> if list_ex (recentFor (ck 2) a) (alerts s) then alerts s else alerts s @ [A])"
  by (simp add: createAndSaveAlert_snd split: option.splits)

lemma createAndSaveAlert_auditLogs:
  "\<exists>ls. auditLogs (snd (createAndSaveAlert ck rnd a s)) = ls @ auditLogs s"
  by (simp add: createAndSaveAlert_snd logAudit_def split: option.splits)

subsection \<open>Processing a transaction\<close>

lemma processAccount_snd:
  "snd (processAccount ck rnd a s) =
     (if score (evaluateAccount (ck 0) s a) \<ge> 30
      then snd (createAndSaveAlert (shift 1 ck) rnd a (updateAccountEvidence (evaluateAccount (ck 0) s a) s))
      else updateAccountEvidence (evaluateAccount (ck 0) s a) s)"
  by (simp add: processAccount_def Let_def split: prod.splits option.splits)

lemma processTransaction_snd:
  "snd (processTransaction ck rnd tx s) =
     snd (processAccount (shift 6 ck) rnd (receiver tx)
       (snd (processAccount (shift 1 ck) rnd (sender tx) (addTransaction (ck 0) rnd tx s))))"
  by (simp add: processTransaction_def Let_def split_beta)

lemma processAccount_transactions [simp]:
  "transactions (snd (processAccount ck rnd a s)) = transactions s"
  by (simp add: processAccount_snd)

lemma processAccount_accountEvidence:
  "accountEvidence (snd (processAccount ck rnd a s)) =
     accountEvidence (updateAccountEvidence (evaluateAccount (ck 0) s a) s)"
  by (simp add: processAccount_snd)

lemma processAccount_evidence_written:
  "a \<noteq> ''__proto__'' \<Longrightarrow> map_of (accountEvidence (snd (processAccount ck rnd a s))) a \<noteq> None"
  by (simp add: processAccount_accountEvidence updateAccountEvidence_def map_of_setProperty)

lemma processAccount_evidence_kept:
  "map_of (accountEvidence s) b \<noteq> None \<Longrightarrow>
   map_of (accountEvidence (snd (processAccount ck rnd a s))) b \<noteq> None"
  unfolding processAccount_accountEvidence updateAccountEvidence_def
  by (simp del: not_None_eq) (rule map_of_setProperty_kept)

lemma processAccount_no_proto:
  "map_of (accountEvidence s) ''__proto__'' = None \<Longrightarrow>
   map_of (accountEvidence (snd (processAccount ck rnd a s))) ''__proto__'' = None"
  unfolding processAccount_accountEvidence updateAccountEvidence_def
  by simp (rule setProperty_no_proto)

lemma processAccount_auditLogs:
  "\<exists>ls. auditLogs (snd (processAccount ck rnd a s)) = ls @ auditLogs s"
  using createAndSaveAlert_auditLogs[of "shift 1 ck" rnd a "updateAccountEvidence (evaluateAccount (ck 0) s a) s"]
  by (simp add: processAccount_snd)

lemma processTransaction_transactions:
  "transactions (snd (processTransaction ck rnd tx s)) = tx # transactions s"
  by (simp add: processTransaction_snd)

lemma processTransaction_auditLogs:
  "\<exists>ls. auditLogs (snd (processTransaction ck rnd tx s)) =
     ls @ \<lparr>log_id = (now (ck 0), rnd (prng s)), log_timestamp = now (ck 0), log_user = ''System'',
           log_action = ''Transaction Added'',
           log_details = TransactionAdded (tx_id tx) (amount tx)\<rparr> # auditLogs s"
proof -
  let ?s1 = "addTransaction (ck 0) rnd tx s"
  let ?s2 = "snd (processAccount (shift 1 ck) rnd (sender tx) ?s1)"
  obtain l1 where 1: "auditLogs ?s2 = l1 @ auditLogs ?s1"
    using processAccount_auditLogs by blast
  obtain l2 where 2: "auditLogs (snd (processAccount (shift 6 ck) rnd (receiver tx) ?s2)) = l2 @ auditLogs ?s2"
    using processAccount_auditLogs by blast
  have "auditLogs (snd (processTransaction ck rnd tx s)) = (l2 @ l1) @ auditLogs ?s1"
    using 1 2 by (simp add: processTransaction_snd)
  then show ?thesis
    by (auto simp add: addTransaction_def logAudit_def)
qed

lemma processTransaction_evidence_sender:
  "sender tx \<noteq> ''__proto__'' \<Longrightarrow>
   map_of (accountEvidence (snd (processTransaction ck rnd tx s))) (sender tx) \<noteq> None"
  unfolding processTransaction_snd
  by (intro processAccount_evidence_kept processAccount_evidence_written)

lemma processTransaction_evidence_receiver:
  "receiver tx \<noteq> ''__proto__'' \<Longrightarrow>
   map_of (accountEvidence (snd (processTransaction ck rnd tx s))) (receiver tx) \<noteq> None"
  unfolding processTransaction_snd
  by (intro processAccount_evidence_written)

lemma processTransaction_no_proto:
  "map_of (accountEvidence s) ''__proto__'' = None \<Longrightarrow>
   map_of (accountEvidence (snd (processTransaction ck rnd tx s))) ''__proto__'' = None"
  unfolding processTransaction_snd
  by (intro processAccount_no_proto) simp

lemma getAccountEvidence_own:
  "map_of (accountEvidence s) a \<noteq> None \<Longrightarrow> \<exists>r. getAccountEvidence s a = Evidence r"
  by (auto simp add: getAccountEvidence_def)

subsection \<open>Clock schedules\<close>

lemma always_apply [simp]: "always clk i = clk"
  by (simp add: always_def)

lemma shift_apply [simp]: "shift k ck i = ck (i + k)"
  by (simp add: shift_def)

subsection \<open>At most one alert of an account within the last hour\<close>













lemma init_reachable: "reachable t (init clk rnd)"
  by (rule reach_start) (simp add: init_def)


subsection \<open>Stores that differ in random ids only\<close>

lemma same_but_random_ids_refl: "same_but_random_ids s s"
  by (simp add: same_but_random_ids_def)

lemma sbr_evaluateAccount:
  "same_but_random_ids s s' \<Longrightarrow> evaluateAccount clk s a = evaluateAccount clk s' a"
  by (rule evaluateAccount_frame) (simp_all add: same_but_random_ids_def)

lemma sbr_logAudit:
  "same_but_random_ids s s' \<Longrightarrow>
   same_but_random_ids (logAudit clk rnd u act d s) (logAudit clk rnd' u act d s')"
  by (simp add: same_but_random_ids_def logAudit_def without_random_def)

lemma sbr_addTransaction:
  "same_but_random_ids s s' \<Longrightarrow>
   same_but_random_ids (addTransaction clk rnd tx s) (addTransaction clk rnd' tx s')"
  unfolding addTransaction_def
  by (rule sbr_logAudit) (simp add: same_but_random_ids_def)

lemma sbr_updateAccountEvidence:
  "same_but_random_ids s s' \<Longrightarrow>
   same_but_random_ids (updateAccountEvidence e s) (updateAccountEvidence e s')"
  by (simp add: same_but_random_ids_def updateAccountEvidence_def)

lemma sbr_createAndSaveAlert:
  assumes "same_but_random_ids s s'"
  shows "same_but_random_ids (snd (createAndSaveAlert ck rnd a s)) (snd (createAndSaveAlert ck rnd' a s'))"
proof -
  have e: "evaluateAccount (ck 0) s a = evaluateAccount (ck 0) s' a"
    using assms by (rule sbr_evaluateAccount)
  have al: "alerts s = alerts s'" using assms by (simp add: same_but_random_ids_def)
  show ?thesis
  proof (cases "generateAlert (ck 1) (evaluateAccount (ck 0) s' a)")
    case None
    with e assms show ?thesis by (simp add: createAndSaveAlert_snd)
  next
    case (Some A)
    show ?thesis
    proof (cases "list_ex (recentFor (ck 2) a) (alerts s')")
      case True
      with Some e al assms show ?thesis by (simp add: createAndSaveAlert_snd)
    next
      case False
      have "same_but_random_ids (s\<lparr>alerts := alerts s @ [A]\<rparr>) (s'\<lparr>alerts := alerts s' @ [A]\<rparr>)"
        using assms by (simp add: same_but_random_ids_def)
      then have "same_but_random_ids
          (logAudit (ck 3) rnd ''System'' ''Alert Generated'' (AlertSaved (a_severity A) a (a_summary A))
             (s\<lparr>alerts := alerts s @ [A]\<rparr>))
          (logAudit (ck 3) rnd' ''System'' ''Alert Generated'' (AlertSaved (a_severity A) a (a_summary A))
             (s'\<lparr>alerts := alerts s' @ [A]\<rparr>))"
        by (rule sbr_logAudit)
      with Some False e al show ?thesis by (simp add: createAndSaveAlert_snd)
    qed
  qed
qed

lemma sbr_processAccount:
  assumes "same_but_random_ids s s'"
  shows "same_but_random_ids (snd (processAccount ck rnd a s)) (snd (processAccount ck rnd' a s'))"
proof -
  have e: "evaluateAccount (ck 0) s a = evaluateAccount (ck 0) s' a"
    using assms by (rule sbr_evaluateAccount)
  have u: "same_but_random_ids (updateAccountEvidence (evaluateAccount (ck 0) s' a) s)
             (updateAccountEvidence (evaluateAccount (ck 0) s' a) s')"
    using assms by (rule sbr_updateAccountEvidence)
  then have "same_but_random_ids
      (snd (createAndSaveAlert (shift 1 ck) rnd a (updateAccountEvidence (evaluateAccount (ck 0) s' a) s)))
      (snd (createAndSaveAlert (shift 1 ck) rnd' a (updateAccountEvidence (evaluateAccount (ck 0) s' a) s')))"
    by (rule sbr_createAndSaveAlert)
  with u e show ?thesis by (simp add: processAccount_snd)
qed

lemma sbr_processTransaction:
  "same_but_random_ids s s' \<Longrightarrow>
   same_but_random_ids (snd (processTransaction ck rnd tx s)) (snd (processTransaction ck rnd' tx s'))"
  unfolding processTransaction_snd
  by (intro sbr_processAccount sbr_addTransaction)

lemma sbr_ingest:
  "same_but_random_ids s s' \<Longrightarrow>
   same_but_random_ids (ingest clk rnd txs s) (ingest clk rnd' txs s')"
  unfolding ingest_def
  by (induction txs arbitrary: s s') (simp_all add: sbr_processTransaction)

subsection \<open>The scenarios, evaluated\<close>

lemma cyc_suspicious:
  "findSuspiciousTransactions clk0 ''A'' (transactions cyc_store)
     (calculateBaseline clk0 ''A'' (transactions cyc_store)) = []"
  by code_simp

lemma cyc_patterns: "detectPatterns clk0 ''A'' (transactions cyc_store) = []"
  by code_simp

lemma cyc_signals:
  "map sig_type (signals (analyzeAccount cyc_store ''A'' (transactions cyc_store))) = [circular_flow] \<and>
   \<not> isProbableML (analyzeAccount cyc_store ''A'' (transactions cyc_store))"
  by code_simp

lemma cyc_score: "score (evaluateAccount clk0 cyc_store ''A'') = 30"
  by code_simp

lemma cyc_riskLevel: "riskLevel (evaluateAccount clk0 cyc_store ''A'') = Suspicious"
  using cyc_score by (simp add: riskLevel_evaluateAccount getRiskLevel_def)


lemma empty_score: "score (evaluateAccount clk0 empty_store ''A'') = 0"
  by code_simp

lemma dup_store_alerts:
  "alerts dup_store = [the (generateAlert clk0 (evaluateAccount clk0 cyc_store ''A''))]"
proof -
  have "generateAlert clk0 (evaluateAccount clk0 cyc_store ''A'') \<noteq> None"
    using cyc_score by (simp add: generateAlert_None)
  moreover have "alerts cyc_store = []" by (simp add: cyc_store_def)
  ultimately show ?thesis
    by (auto simp add: dup_store_def createAndSaveAlert_alerts)
qed

lemma dup_store_alert:
  "\<exists>A. alerts dup_store = [A] \<and> a_accountId A = ''A'' \<and> a_timestamp A = 1700000000000"
proof -
  obtain A where A: "generateAlert clk0 (evaluateAccount clk0 cyc_store ''A'') = Some A"
    using cyc_score generateAlert_None[of clk0 "evaluateAccount clk0 cyc_store ''A''"] by auto
  have "alerts dup_store = [A]" using A by (simp add: dup_store_alerts)
  moreover have "a_accountId A = ''A''" "a_timestamp A = 1700000000000"
    using generateAlert_Some[OF A] by (simp_all add: clk0_def)
  ultimately show ?thesis by blast
qed

lemma dup_store_recent: "list_ex (recentFor clk0 ''A'') (alerts dup_store)"
  using dup_store_alert by (auto simp add: recentFor_def clk0_def)

lemma dup_store_score: "score (evaluateAccount clk0 dup_store ''A'') = 30"
proof -
  have "evaluateAccount clk0 dup_store ''A'' = evaluateAccount clk0 cyc_store ''A''"
    by (rule evaluateAccount_frame) (simp_all add: dup_store_def)
  then show ?thesis by (simp add: cyc_score)
qed




lemma dev_baseline:
  "b_accountId (calculateBaseline clk0 ''A'' dev_txs) = ''A'' \<and>
   accountAge (calculateBaseline clk0 ''A'' dev_txs) = 10 \<and>
   avgDailyOutflow (calculateBaseline clk0 ''A'' dev_txs) = 110"
  by code_simp

lemma dev_suspicious:
  "map s_txId (filter (\<lambda>e. s_type e = baseline_deviation)
     (findSuspiciousTransactions clk0 ''A'' dev_txs (calculateBaseline clk0 ''A'' dev_txs))) = [''TX-2'']"
  by code_simp

lemma dev_ratio: "jdiv 1000 110 = 5117726849284655 / 562949953421312"
  by code_simp

lemma cent_ratio: "jdiv (fl (27 / 100)) (fl (9 / 100)) = 3 + 1 / 2 ^ 51"
  by code_simp

subsection \<open>Determinism\<close>

text \<open>Two runs from the empty store that ingest the same valid transaction under the same
  clock reading, with \<open>Math.random()\<close> returning different values: the audit record of the
  added transaction gets different ids.\<close>

theorem audit_ids_differ_between_runs:
  "log_id (last (auditLogs (ingest clk0 rnd_a [pay_tx] empty_store))) = (1700000000000, ''a'') \<and>
   log_id (last (auditLogs (ingest clk0 rnd_b [pay_tx] empty_store))) = (1700000000000, ''b'') \<and>
   auditLogs (ingest clk0 rnd_a [pay_tx] empty_store) \<noteq> auditLogs (ingest clk0 rnd_b [pay_tx] empty_store)"
proof -
  have a: "log_id (last (auditLogs (ingest clk0 rnd_a [pay_tx] empty_store))) = (1700000000000, ''a'')"
    using processTransaction_auditLogs[of "always clk0" rnd_a pay_tx empty_store]
    by (auto simp add: ingest_def empty_store_def clk0_def rnd_a_def)
  have b: "log_id (last (auditLogs (ingest clk0 rnd_b [pay_tx] empty_store))) = (1700000000000, ''b'')"
    using processTransaction_auditLogs[of "always clk0" rnd_b pay_tx empty_store]
    by (auto simp add: ingest_def empty_store_def clk0_def rnd_b_def)
  have "auditLogs (ingest clk0 rnd_a [pay_tx] empty_store) \<noteq> auditLogs (ingest clk0 rnd_b [pay_tx] empty_store)"
  proof
    assume "auditLogs (ingest clk0 rnd_a [pay_tx] empty_store) = auditLogs (ingest clk0 rnd_b [pay_tx] empty_store)"
    with a b show False by simp
  qed
  with a b show ?thesis by simp
qed

text \<open>Claim C1, as amended. Two runs that start from the same store, ingest the same
  transactions through \<open>processTransaction\<close> and read the same clock end in stores with the
  same transactions, account evidence and alerts, and with the same audit records except
  for the random part of each audit id, whatever \<open>Math.random()\<close> returns in either run.\<close>

theorem ingest_deterministic_up_to_random_audit_ids:
  "same_but_random_ids (ingest clk rnd txs s) (ingest clk rnd' txs s)"
  by (rule sbr_ingest) (rule same_but_random_ids_refl)

theorem ingest_deterministic_up_to_random_audit_ids_witness:
  "transactions (ingest clk0 rnd_a [pay_tx] empty_store) = transactions (ingest clk0 rnd_b [pay_tx] empty_store) \<and>
   accountEvidence (ingest clk0 rnd_a [pay_tx] empty_store) = accountEvidence (ingest clk0 rnd_b [pay_tx] empty_store) \<and>
   alerts (ingest clk0 rnd_a [pay_tx] empty_store) = alerts (ingest clk0 rnd_b [pay_tx] empty_store) \<and>
   map without_random (auditLogs (ingest clk0 rnd_a [pay_tx] empty_store)) =
   map without_random (auditLogs (ingest clk0 rnd_b [pay_tx] empty_store))"
  using ingest_deterministic_up_to_random_audit_ids[of clk0 rnd_a "[pay_tx]" empty_store rnd_b]
  by (simp add: same_but_random_ids_def)

subsection \<open>Validation\<close>

text \<open>A transaction with a negative amount, the sender as receiver and a timestamp that
  does not parse is stored.\<close>

theorem processTransaction_accepts_invalid_transaction:
  "amount bad_tx \<le> 0 \<and> sender bad_tx = receiver bad_tx \<and> timestamp bad_tx = None \<and>
   transactions empty_store = [] \<and>
   transactions (snd (processTransaction (always clk0) rnd_a bad_tx empty_store)) = [bad_tx] \<and>
   snd (processTransaction (always clk0) rnd_a bad_tx empty_store) \<noteq> empty_store"
proof -
  have 1: "transactions (snd (processTransaction (always clk0) rnd_a bad_tx empty_store)) = [bad_tx]"
    by (simp add: processTransaction_transactions empty_store_def)
  have 2: "transactions empty_store = []" by (simp add: empty_store_def)
  have "snd (processTransaction (always clk0) rnd_a bad_tx empty_store) \<noteq> empty_store"
    using 1 2 by auto
  then show ?thesis using 1 2 by (simp add: bad_tx_def)
qed

text \<open>Claim C2, as amended. \<open>processTransaction\<close> validates nothing: whatever the amount, the
  sender, the receiver and the timestamp of the transaction are, it puts the transaction at
  the head of the stored transactions and logs a \<open>Transaction Added\<close> audit record, stamped
  with the first clock reading of the call. It writes account evidence for the sender and
  for the receiver, unless the account is named \<open>__proto__\<close>: for that name the assignment
  to the evidence object creates no property, and an evidence object without an own
  property \<open>__proto__\<close> stays without one.\<close>

theorem processTransaction_stores_every_transaction:
  "transactions (snd (processTransaction ck rnd tx s)) = tx # transactions s \<and>
   (\<exists>ls. auditLogs (snd (processTransaction ck rnd tx s)) =
      ls @ \<lparr>log_id = (now (ck 0), rnd (prng s)), log_timestamp = now (ck 0), log_user = ''System'',
            log_action = ''Transaction Added'',
            log_details = TransactionAdded (tx_id tx) (amount tx)\<rparr> # auditLogs s) \<and>
   (sender tx \<noteq> ''__proto__'' \<longrightarrow>
      (\<exists>r. getAccountEvidence (snd (processTransaction ck rnd tx s)) (sender tx) = Evidence r)) \<and>
   (receiver tx \<noteq> ''__proto__'' \<longrightarrow>
      (\<exists>r. getAccountEvidence (snd (processTransaction ck rnd tx s)) (receiver tx) = Evidence r)) \<and>
   (map_of (accountEvidence s) ''__proto__'' = None \<longrightarrow>
      map_of (accountEvidence (snd (processTransaction ck rnd tx s))) ''__proto__'' = None)"
  using processTransaction_auditLogs[of ck rnd tx s]
        processTransaction_evidence_sender[of tx ck rnd s, THEN getAccountEvidence_own]
        processTransaction_evidence_receiver[of tx ck rnd s, THEN getAccountEvidence_own]
        processTransaction_transactions[of ck rnd tx s]
        processTransaction_no_proto[of s ck rnd tx]
  by blast

theorem processTransaction_stores_every_transaction_witness:
  "transactions (snd (processTransaction (always clk0) rnd_a bad_tx empty_store)) = [bad_tx] \<and>
   (\<exists>r. getAccountEvidence (snd (processTransaction (always clk0) rnd_a bad_tx empty_store)) ''A'' = Evidence r) \<and>
   map_of (accountEvidence (snd (processTransaction (always clk0) rnd_a proto_tx empty_store))) ''__proto__'' = None \<and>
   (\<exists>r. getAccountEvidence (snd (processTransaction (always clk0) rnd_a proto_tx empty_store)) ''B'' = Evidence r)"
  using processTransaction_stores_every_transaction[of "always clk0" rnd_a bad_tx empty_store]
        processTransaction_stores_every_transaction[of "always clk0" rnd_a proto_tx empty_store]
  by (simp add: bad_tx_def proto_tx_def empty_store_def)

subsection \<open>Score and risk level\<close>

text \<open>Claim C3. After an evaluation the persisted evidence record of the account is meant
  to hold the score and the risk level of its band. For the account \<open>__proto__\<close> the
  returned evaluation has the level of its band, but nothing is persisted:
  \<open>data.accountEvidence['__proto__'] = {...}\<close> sets the prototype of the evidence object and
  creates no property, so that the saved object has no record for the account, and
  \<open>getAccountEvidence\<close> returns the member inherited from \<open>Object.prototype\<close>, which is no
  evidence record. The same happens when \<open>processTransaction\<close> handles a transaction that the
  account sends: the receiver alone gets a record.\<close>

theorem evidence_of_proto_account_is_not_persisted:
  "band (score (evaluateAccount clk0 proto_store ''__proto__''))
     = Some (riskLevel (evaluateAccount clk0 proto_store ''__proto__'')) \<and>
   accountEvidence (updateAccountEvidence (evaluateAccount clk0 proto_store ''__proto__'') proto_store) = [] \<and>
   getAccountEvidence (updateAccountEvidence (evaluateAccount clk0 proto_store ''__proto__'') proto_store)
     ''__proto__'' = InheritedMember \<and>
   sender proto_tx = ''__proto__'' \<and>
   map fst (accountEvidence (snd (processTransaction (always clk0) rnd_a proto_tx empty_store))) = [''B''] \<and>
   getAccountEvidence (snd (processTransaction (always clk0) rnd_a proto_tx empty_store)) ''__proto__''
     = InheritedMember"
proof -
  let ?e = "evaluateAccount clk0 proto_store ''__proto__''"
  have 1: "accountEvidence (updateAccountEvidence ?e proto_store) = []"
    by (simp add: updateAccountEvidence_def setProperty_proto proto_store_def)
  then have 2: "getAccountEvidence (updateAccountEvidence ?e proto_store) ''__proto__'' = InheritedMember"
    by (simp add: getAccountEvidence_def objectPrototypeNames_def)
  let ?s1 = "addTransaction clk0 rnd_a proto_tx empty_store"
  let ?s2 = "snd (processAccount (shift 1 (always clk0)) rnd_a ''__proto__'' ?s1)"
  have "accountEvidence ?s1 = []"
    by (simp add: empty_store_def)
  then have "accountEvidence ?s2 = []"
    by (simp add: processAccount_accountEvidence updateAccountEvidence_def setProperty_proto)
  then have 3: "map fst (accountEvidence (snd (processTransaction (always clk0) rnd_a proto_tx empty_store))) = [''B'']"
    by (simp add: processTransaction_snd proto_tx_def processAccount_accountEvidence
          updateAccountEvidence_def setProperty_def isArrayIndex_def isDigit_def)
  have "''__proto__'' \<notin> set (map fst
      (accountEvidence (snd (processTransaction (always clk0) rnd_a proto_tx empty_store))))"
    unfolding 3 by simp
  then have "map_of (accountEvidence (snd (processTransaction (always clk0) rnd_a proto_tx empty_store)))
      ''__proto__'' = None"
    by (simp add: map_of_eq_None_iff)
  then have 4: "getAccountEvidence (snd (processTransaction (always clk0) rnd_a proto_tx empty_store)) ''__proto__''
     = InheritedMember"
    by (simp add: getAccountEvidence_def objectPrototypeNames_def)
  show ?thesis
    using evaluate_risk_level_band[of clk0 proto_store "''__proto__''"] 1 2 3 4
    by (simp add: proto_tx_def)
qed

text \<open>Claim C6. The score of an evaluation is the weighted sum of the number of suspicious
  entries (10 each), of patterns (20 each) and of network signals (30 each), plus 20 when the
  network analysis says probable money laundering, clamped to 0..100; it lies between 0 and
  100.\<close>

theorem evaluate_score_is_clamped_sum:
  "score (evaluateAccount clk s a) =
     clamp (10 * int (length (findSuspiciousTransactions clk a (transactions s)
                                (calculateBaseline clk a (transactions s))))
            + 20 * int (length (detectPatterns clk a (transactions s)))
            + 30 * int (length (signals (analyzeAccount s a (transactions s))))
            + (if isProbableML (analyzeAccount s a (transactions s)) then 20 else 0)) 0 100
   \<and> 0 \<le> score (evaluateAccount clk s a) \<and> score (evaluateAccount clk s a) \<le> 100"
  unfolding score_evaluateAccount
  by (simp add: calculateScore_def networkSignals_analyzeAccount Let_def clamp_def mult.commute)

theorem evaluate_score_is_clamped_sum_witness:
  "score (evaluateAccount clk0 cyc_store ''A'') = 30"
proof -
  have "length (map sig_type (signals (analyzeAccount cyc_store ''A'' (transactions cyc_store)))) = 1"
    using cyc_signals by simp
  then have "length (signals (analyzeAccount cyc_store ''A'' (transactions cyc_store))) = 1"
    by simp
  then show ?thesis
    using evaluate_score_is_clamped_sum[of clk0 cyc_store "''A''"] cyc_suspicious cyc_patterns cyc_signals
    by (simp add: clamp_def)
qed

subsection \<open>Alert generation and deduplication\<close>

text \<open>Claim C4. \<open>generateAlert\<close> returns null exactly when the score of the evaluation is below
  30; an alert it returns has a score of at least 30 and the severity that belongs to its
  risk level: low for Normal, medium for Suspicious, high for HighRisk, critical for
  ProbableML.\<close>

theorem generateAlert_null_iff_below_threshold:
  "(generateAlert clk e = None) = (score e < 30) \<and>
   (\<forall>A. generateAlert clk e = Some A \<longrightarrow>
      a_score A \<ge> 30 \<and>
      a_severity A = (case a_riskLevel A of Normal \<Rightarrow> Low | Suspicious \<Rightarrow> Medium
                      | HighRisk \<Rightarrow> High | ProbableML \<Rightarrow> Critical))"
  by (cases "riskLevel e") (auto simp add: generateAlert_def)

theorem generateAlert_null_iff_below_threshold_witness:
  "map_option (\<lambda>A. (a_score A, a_riskLevel A, a_severity A))
     (generateAlert clk0 (evaluateAccount clk0 cyc_store ''A'')) = Some (30, Suspicious, Medium) \<and>
   generateAlert clk0 (evaluateAccount clk0 empty_store ''A'') = None"
proof -
  have "a_riskLevel A = Suspicious \<and> a_score A = 30"
    if "generateAlert clk0 (evaluateAccount clk0 cyc_store ''A'') = Some A" for A
    using that cyc_riskLevel cyc_score by (auto simp add: generateAlert_def)
  then show ?thesis
    using generateAlert_null_iff_below_threshold[of clk0 "evaluateAccount clk0 cyc_store ''A''"]
          generateAlert_null_iff_below_threshold[of clk0 "evaluateAccount clk0 empty_store ''A''"]
          cyc_score empty_score
    by (cases "generateAlert clk0 (evaluateAccount clk0 cyc_store ''A'')") auto
qed



text \<open>Claim C10. When the evaluation of the account scores 30 or more, \<open>createAndSaveAlert\<close>
  returns the alert that \<open>generateAlert\<close> has just built, whether or not it saves it: with an
  alert of the account newer than one hour in the store, the store is left as it was (no
  alert, no audit record), and otherwise the alert is appended and one audit record is
  written. The returned value is the same in both cases.\<close>

theorem createAndSaveAlert_returns_alert_even_if_duplicate:
  assumes "score (evaluateAccount (ck 0) s a) \<ge> 30"
  shows "\<exists>A. generateAlert (ck 1) (evaluateAccount (ck 0) s a) = Some A \<and>
             fst (createAndSaveAlert ck rnd a s) = Some A \<and>
             (if list_ex (recentFor (ck 2) a) (alerts s)
              then snd (createAndSaveAlert ck rnd a s) = s
              else alerts (snd (createAndSaveAlert ck rnd a s)) = alerts s @ [A] \<and>
                   length (auditLogs (snd (createAndSaveAlert ck rnd a s))) = Suc (length (auditLogs s)))"
proof -
  from assms obtain A where A: "generateAlert (ck 1) (evaluateAccount (ck 0) s a) = Some A"
    using generateAlert_None[of "ck 1" "evaluateAccount (ck 0) s a"]
    by (cases "generateAlert (ck 1) (evaluateAccount (ck 0) s a)") auto
  then show ?thesis
    by (simp add: createAndSaveAlert_fst createAndSaveAlert_snd logAudit_def)
qed

theorem createAndSaveAlert_returns_alert_even_if_duplicate_witness:
  "fst (createAndSaveAlert (always clk0) rnd_b ''A'' dup_store) \<noteq> None \<and>
   snd (createAndSaveAlert (always clk0) rnd_b ''A'' dup_store) = dup_store \<and>
   length (alerts dup_store) = 1"
  using createAndSaveAlert_returns_alert_even_if_duplicate[of "always clk0" dup_store "''A''" rnd_b]
        dup_store_score dup_store_recent
  by (auto simp add: dup_store_alerts)

subsection \<open>Baseline and suspicious transactions\<close>

text \<open>Where the first transaction is not dated after the clock reading, or its timestamp
  does not parse, the account age is at least one day.\<close>

lemma ageOf_at_least_one:
  "(case first of None \<Rightarrow> True | Some t \<Rightarrow> t \<le> now clk) \<Longrightarrow> 1 \<le> ageOf clk first"
proof (cases first)
  case None
  then show ?thesis by (simp add: ageOf_def)
next
  case (Some t)
  assume "case first of None \<Rightarrow> True | Some t \<Rightarrow> t \<le> now clk"
  with Some have "0 \<le> now clk - t" by simp
  then have "0 \<le> (now clk - t) div msPerDay"
    by (simp add: msPerDay_def pos_imp_zdiv_nonneg_iff)
  with Some show ?thesis by (simp add: ageOf_def Let_def)
qed

lemma foldl_earlier_mem: "foldl earlier t0 rest \<in> set (t0 # rest)"
  by (induction rest arbitrary: t0) (auto simp add: earlier_def)

lemma calculateBaseline_age_at_least_one:
  assumes "list_ex (touches a) txs"
    and "list_all (\<lambda>tx. case timestamp tx of None \<Rightarrow> True | Some t \<Rightarrow> t \<le> now clk)
           (filter (touches a) txs)"
  shows "1 \<le> accountAge (calculateBaseline clk a txs)"
proof -
  obtain t0 rest where f: "filter (touches a) txs = t0 # rest"
    using assms(1) by (cases "filter (touches a) txs") (auto simp add: list_ex_iff filter_empty_conv)
  have "foldl earlier t0 rest \<in> set (filter (touches a) txs)"
    using foldl_earlier_mem[of t0 rest] f by simp
  then have "case timestamp (foldl earlier t0 rest) of None \<Rightarrow> True | Some t \<Rightarrow> t \<le> now clk"
    using assms(2) by (simp add: list_all_iff)
  then have "1 \<le> ageOf clk (timestamp (foldl earlier t0 rest))"
    by (rule ageOf_at_least_one)
  then show ?thesis
    using f by (simp add: calculateBaseline_def Let_def)
qed

text \<open>Claim C7. The account age is meant to be at least one day. For an account whose first
  transaction is dated one hour after the clock reading, \<open>calculateBaseline\<close> returns the
  age \<open>-1\<close> and the average daily outflow \<open>-100\<close>: the floor of the negative quotient is
  \<open>-1\<close>, which \<open>|| 1\<close> keeps.\<close>

theorem calculateBaseline_negative_age:
  "touches ''A'' future_tx \<and>
   accountAge (calculateBaseline clk0 ''A'' [future_tx]) = - 1 \<and>
   avgDailyOutflow (calculateBaseline clk0 ''A'' [future_tx]) = - 100"
  by code_simp

text \<open>The transfer of 1000 that B sends, checked against the baseline of A (average daily
  outflow 110), is reported as an amount deviation of severity high; the ratio is the
  binary64 value next to \<open>100 / 11\<close>.\<close>

theorem checkDeviation_ignores_whose_baseline:
  "sender (hd dev_txs) = ''B'' \<and>
   b_accountId (calculateBaseline clk0 ''A'' dev_txs) = ''A'' \<and>
   deviations (checkDeviation (hd dev_txs) (calculateBaseline clk0 ''A'' dev_txs)) =
     [\<lparr>dev_type = amount_deviation, dev_severity = High,
       dev_ratio = Some (5117726849284655 / 562949953421312)\<rparr>]"
  by code_simp

text \<open>Claim C8, as amended. \<open>checkDeviation\<close> reports an amount deviation exactly when the
  sender of the transaction is not empty, the average daily outflow of the baseline is
  positive and the quotient of the amount by that average, as binary64 division rounds it,
  is more than 3, with severity high when that quotient exceeds 5 and medium otherwise; it
  does not compare the sender with the account of the baseline. A transaction with an empty
  sender gets no amount deviation and no first transaction entry. It is
  \<open>findSuspiciousTransactions\<close> that calls \<open>checkDeviation\<close> only for the transactions that the
  account sent, so that every baseline deviation entry is about such a transaction.\<close>

theorem checkDeviation_amount_deviation:
  "filter (\<lambda>d. dev_type d = amount_deviation) (deviations (checkDeviation tx b)) =
     (if sender tx \<noteq> [] \<and> avgDailyOutflow b > 0 \<and> jdiv (amount tx) (avgDailyOutflow b) > 3
      then [\<lparr>dev_type = amount_deviation,
             dev_severity = (if jdiv (amount tx) (avgDailyOutflow b) > 5 then High else Medium),
             dev_ratio = Some (jdiv (amount tx) (avgDailyOutflow b))\<rparr>]
      else []) \<and>
   (sender tx = [] \<longrightarrow> (\<forall>d \<in> set (deviations (checkDeviation tx b)). dev_type d = range_deviation)) \<and>
   (\<forall>e \<in> set (findSuspiciousTransactions clk a txs b').
      s_type e = baseline_deviation \<longrightarrow>
        sender (s_transaction e) = a \<and>
        s_deviations e = deviations (checkDeviation (s_transaction e) b'))"
proof (intro conjI impI ballI)
  show "filter (\<lambda>d. dev_type d = amount_deviation) (deviations (checkDeviation tx b)) =
     (if sender tx \<noteq> [] \<and> avgDailyOutflow b > 0 \<and> jdiv (amount tx) (avgDailyOutflow b) > 3
      then [\<lparr>dev_type = amount_deviation,
             dev_severity = (if jdiv (amount tx) (avgDailyOutflow b) > 5 then High else Medium),
             dev_ratio = Some (jdiv (amount tx) (avgDailyOutflow b))\<rparr>]
      else [])"
    by (simp add: checkDeviation_def Let_def)
next
  fix d
  assume "sender tx = []" and "d \<in> set (deviations (checkDeviation tx b))"
  then show "dev_type d = range_deviation"
    by (auto simp add: checkDeviation_def Let_def split: if_splits)
next
  fix e
  assume e: "e \<in> set (findSuspiciousTransactions clk a txs b')" "s_type e = baseline_deviation"
  then show "sender (s_transaction e) = a"
    by (auto simp add: findSuspiciousTransactions_def Let_def entry_def split: if_splits)
  from e show "s_deviations e = deviations (checkDeviation (s_transaction e) b')"
    by (auto simp add: findSuspiciousTransactions_def Let_def entry_def split: if_splits)
qed

text \<open>The payment of 1000 that A sends against an average daily outflow of 110 is a
  deviation of severity high. The payment of 0.27 against an average of 0.09 is a
  deviation of severity medium: the exact quotient of the two decimal fractions is 3, the
  quotient of the binary64 values is \<open>3.0000000000000004\<close>.\<close>

theorem checkDeviation_amount_deviation_witness:
  "filter (\<lambda>d. dev_type d = amount_deviation)
     (deviations (checkDeviation (dev_txs ! 1) (calculateBaseline clk0 ''A'' dev_txs))) =
     [\<lparr>dev_type = amount_deviation, dev_severity = High,
       dev_ratio = Some (5117726849284655 / 562949953421312)\<rparr>] \<and>
   filter (\<lambda>d. dev_type d = amount_deviation) (deviations (checkDeviation cent_tx cent_baseline)) =
     [\<lparr>dev_type = amount_deviation, dev_severity = Medium, dev_ratio = Some (3 + 1 / 2 ^ 51)\<rparr>] \<and>
   list_all (\<lambda>e. sender (s_transaction e) = ''A'')
     (filter (\<lambda>e. s_type e = baseline_deviation)
        (findSuspiciousTransactions clk0 ''A'' dev_txs (calculateBaseline clk0 ''A'' dev_txs))) \<and>
   length (filter (\<lambda>e. s_type e = baseline_deviation)
        (findSuspiciousTransactions clk0 ''A'' dev_txs (calculateBaseline clk0 ''A'' dev_txs))) = 1"
proof -
  have tx: "sender (dev_txs ! 1) = ''A''" "amount (dev_txs ! 1) = 1000"
    by (simp_all add: dev_txs_def)
  have n: "length (map s_txId (filter (\<lambda>e. s_type e = baseline_deviation)
        (findSuspiciousTransactions clk0 ''A'' dev_txs (calculateBaseline clk0 ''A'' dev_txs)))) = 1"
    using dev_suspicious by simp
  have c: "sender cent_tx = ''A''" "amount cent_tx = fl (27 / 100)"
    "avgDailyOutflow cent_baseline = fl (9 / 100)"
    by (simp_all add: cent_tx_def cent_baseline_def)
  have p: "(0 :: rat) < fl (9 / 100)"
    by code_simp
  have 1: "filter (\<lambda>d. dev_type d = amount_deviation)
     (deviations (checkDeviation (dev_txs ! 1) (calculateBaseline clk0 ''A'' dev_txs))) =
     [\<lparr>dev_type = amount_deviation, dev_severity = High,
       dev_ratio = Some (5117726849284655 / 562949953421312)\<rparr>] \<and>
   list_all (\<lambda>e. sender (s_transaction e) = ''A'')
     (filter (\<lambda>e. s_type e = baseline_deviation)
        (findSuspiciousTransactions clk0 ''A'' dev_txs (calculateBaseline clk0 ''A'' dev_txs)))"
    using checkDeviation_amount_deviation[of "dev_txs ! 1" "calculateBaseline clk0 ''A'' dev_txs"
            clk0 "''A''" dev_txs "calculateBaseline clk0 ''A'' dev_txs"]
          dev_baseline tx dev_ratio
    by (simp add: list_all_iff)
  have 2: "filter (\<lambda>d. dev_type d = amount_deviation) (deviations (checkDeviation cent_tx cent_baseline)) =
     [\<lparr>dev_type = amount_deviation, dev_severity = Medium, dev_ratio = Some (3 + 1 / 2 ^ 51)\<rparr>]"
    using checkDeviation_amount_deviation[of cent_tx cent_baseline clk0 "''A''" "[]" cent_baseline]
          c p cent_ratio
    by simp
  from 1 2 n show ?thesis by simp
qed

text \<open>Claim C9. The similar-value test is meant to count the transactions within 24 hours.
  With three payments of the same amount ten days apart, \<open>findSuspiciousTransactions\<close> emits
  a similar-value entry for the oldest one: its filter has the lower bound of the window
  only, and so counts the two payments made ten and twenty days later; in the 24 hours up
  to the oldest payment there is that payment alone.\<close>

theorem similar_value_repeat_counts_later_transactions:
  "map s_txId (filter (\<lambda>e. s_type e = similar_value_repeat)
       (findSuspiciousTransactions rep_clk ''A'' rep_txs (calculateBaseline rep_clk ''A'' rep_txs)))
     = [''TX-1''] \<and>
   tx_id (last rep_txs) = ''TX-1'' \<and>
   \<not> spec_similar_value_repeat ''A'' rep_txs (last rep_txs)"
  by code_simp

end
